theory Spec2Isabelle
  imports Main "HOL-Library.Multiset" "HOL-Library.AList"
begin

section \<open>Python values: exceptions, warnings, dictionaries\<close>

text \<open>
  The package \<^verbatim>\<open>translation_agent\<close> is Python. An exception is a value of type
  \<open>error\<close>, one constructor per exception class with the message as the code (or the
  interpreter) writes it. Two messages interpolate a set, whose printed order Python
  does not fix, so the set itself is kept: \<open>MissingParameters S\<close> is the
  \<^verbatim>\<open>ValueError(f"Prompt requires missing parameters: {S}")\<close> of \<^verbatim>\<open>placeholders_in_dict\<close>.
  A function that can raise returns \<open>error + 'a\<close>, \<open>Inl\<close> being the raise.
  \<open>OtherError\<close> is any other instance of \<^verbatim>\<open>Exception\<close>. \<open>BaseException\<close> is an exception
  that is not an instance of \<^verbatim>\<open>Exception\<close>, such as \<^verbatim>\<open>SystemExit\<close>, \<^verbatim>\<open>KeyboardInterrupt\<close>,
  \<^verbatim>\<open>GeneratorExit\<close> or \<^verbatim>\<open>asyncio.CancelledError\<close>: a handler \<^verbatim>\<open>except Exception\<close> does not
  catch it. Strings are character lists, one \<open>char\<close> per code point, so the code points
  are those below 256; the decimal digits among them are \<^verbatim>\<open>0\<close> to \<^verbatim>\<open>9\<close>.
\<close>

datatype error =
    ValueError string
  | MissingParameters "string set"
  | KeyError string
  | IndexError string
  | TypeError string
  | ZeroDivisionError string
  | OtherError string
  | BaseException string

text \<open>\<^verbatim>\<open>isinstance(e, Exception)\<close>\<close>

definition is_Exception :: "error \<Rightarrow> bool" where
  "is_Exception e = (case e of BaseException s \<Rightarrow> False | _ \<Rightarrow> True)"

text \<open>
  \<^verbatim>\<open>warnings.warn\<close> is non-fatal: a function that warns returns the list of the warnings it
  emitted next to its result.
\<close>

datatype warning =
    ExtraParameters "string set"
  | Overridden "string set"
  | BufferNotEmpty
  | SourceTooShort

text \<open>
  A \<^verbatim>\<open>dict\<close> from strings to strings is an association list in insertion order with
  distinct keys. \<^verbatim>\<open>d[k] = v\<close> is \<^const>\<open>AList.update\<close> (an existing key keeps its place,
  a new one goes last); \<^verbatim>\<open>{**a, **b}\<close> and \<^verbatim>\<open>a | b\<close> store the items of \<open>b\<close> into \<open>a\<close>
  from left to right.
\<close>

type_synonym dict = "(string \<times> string) list"

definition dict_keys :: "dict \<Rightarrow> string list" where
  "dict_keys d = map fst d"

definition dict_merge :: "dict \<Rightarrow> dict \<Rightarrow> dict" where
  "dict_merge a b = fold (\<lambda>(k, v) d. AList.update k v d) b a"

section \<open>The format-string machinery of the standard library\<close>

text \<open>
  \<^verbatim>\<open>prompts.py\<close> rests on \<^verbatim>\<open>string.Formatter().parse\<close> and \<^verbatim>\<open>str.format\<close>. Both walk the
  template with CPython's markup iterator: literal text up to a brace, \<^verbatim>\<open>{{\<close> and \<^verbatim>\<open>}}\<close>
  as escaped braces, and a replacement field \<^verbatim>\<open>{name!conversion:spec}\<close>.
  An item is the literal text with the field that follows it, if any; a field is its
  name, its format spec and its conversion character.
\<close>

type_synonym field = "string \<times> string \<times> char option"
type_synonym item = "string \<times> field option"

text \<open>
  The field name runs to the first \<^verbatim>\<open>}\<close>, \<^verbatim>\<open>:\<close> or \<^verbatim>\<open>!\<close> outside square brackets; the flag
  says whether the scan is inside \<^verbatim>\<open>[...]\<close>. The result is the name, the character that
  ended it and what follows.
\<close>

fun field_name_scan :: "bool \<Rightarrow> string \<Rightarrow> string \<Rightarrow> error + (string \<times> char \<times> string)" where
  "field_name_scan br acc [] = Inl (ValueError ''expected '}' before end of string'')"
| "field_name_scan True acc (c # cs) =
     (if c = CHR '']'' then field_name_scan False (c # acc) cs
      else field_name_scan True (c # acc) cs)"
| "field_name_scan False acc (c # cs) =
     (if c = CHR ''{'' then Inl (ValueError ''unexpected '{' in field name'')
      else if c = CHR ''['' then field_name_scan True (c # acc) cs
      else if c = CHR ''}'' \<or> c = CHR '':'' \<or> c = CHR ''!'' then Inr (rev acc, c, cs)
      else field_name_scan False (c # acc) cs)"

text \<open>
  The format spec runs to the brace that closes the field; \<open>depth\<close> is the number of
  open braces, 1 on entry.
\<close>

fun format_spec_scan :: "nat \<Rightarrow> string \<Rightarrow> string \<Rightarrow> error + (string \<times> string)" where
  "format_spec_scan depth acc [] = Inl (ValueError ''unmatched '{' in format spec'')"
| "format_spec_scan depth acc (c # cs) =
     (if c = CHR ''{'' then format_spec_scan (Suc depth) (c # acc) cs
      else if c = CHR ''}'' then
        (if depth = 1 then Inr (rev acc, cs) else format_spec_scan (depth - 1) (c # acc) cs)
      else format_spec_scan depth (c # acc) cs)"

definition parse_field :: "string \<Rightarrow> error + (field \<times> string)" where
  "parse_field s =
     (case field_name_scan False [] s of
        Inl e \<Rightarrow> Inl e
      | Inr (name, c, rest) \<Rightarrow>
          if c = CHR ''}'' then Inr ((name, [], None), rest)
          else if c = CHR '':'' then
            (case format_spec_scan 1 [] rest of
               Inl e \<Rightarrow> Inl e
             | Inr (spec, rest') \<Rightarrow> Inr ((name, spec, None), rest'))
          else
            (case rest of
               [] \<Rightarrow> Inl (ValueError ''end of string while looking for conversion specifier'')
             | conv # rest1 \<Rightarrow>
                 (case rest1 of
                    [] \<Rightarrow> Inl (ValueError ''unmatched '{' in format spec'')
                  | c2 # rest2 \<Rightarrow>
                      if c2 = CHR ''}'' then Inr ((name, [], Some conv), rest2)
                      else if c2 \<noteq> CHR '':'' then
                        Inl (ValueError ''expected ':' after conversion specifier'')
                      else
                        (case format_spec_scan 1 [] rest2 of
                           Inl e \<Rightarrow> Inl e
                         | Inr (spec, rest') \<Rightarrow> Inr ((name, spec, Some conv), rest')))))"

definition not_brace :: "char \<Rightarrow> bool" where
  "not_brace c = (c \<noteq> CHR ''{'' \<and> c \<noteq> CHR ''}'')"

text \<open>One step of the markup iterator on a non-empty rest of the template.\<close>

definition markup_next :: "string \<Rightarrow> error + (item \<times> string)" where
  "markup_next s =
     (let lit = takeWhile not_brace s in
      case dropWhile not_brace s of
        [] \<Rightarrow> Inr ((lit, None), [])
      | c # r \<Rightarrow>
          if c = CHR ''}'' then
            (case r of
               [] \<Rightarrow> Inl (ValueError ''Single '}' encountered in format string'')
             | c2 # r2 \<Rightarrow>
                 if c2 = CHR ''}'' then Inr ((lit @ [c], None), r2)
                 else Inl (ValueError ''Single '}' encountered in format string''))
          else
            (case r of
               [] \<Rightarrow> Inl (ValueError ''Single '{' encountered in format string'')
             | c2 # r2 \<Rightarrow>
                 if c2 = CHR ''{'' then Inr ((lit @ [c], None), r2)
                 else
                   (case parse_field r of
                      Inl e \<Rightarrow> Inl e
                    | Inr (fld, r') \<Rightarrow> Inr ((lit, Some fld), r'))))"

lemma field_name_scan_shorter:
  "field_name_scan br acc s = Inr (name, c, rest) \<Longrightarrow> length rest < length s"
  by (induction br acc s rule: field_name_scan.induct) (auto split: if_splits)

lemma format_spec_scan_shorter:
  "format_spec_scan depth acc s = Inr (spec, rest) \<Longrightarrow> length rest < length s"
  by (induction depth acc s rule: format_spec_scan.induct) (auto split: if_splits)

lemma parse_field_shorter:
  "parse_field s = Inr (fld, rest) \<Longrightarrow> length rest < length s"
  unfolding parse_field_def
  by (auto split: sum.splits if_splits list.splits prod.splits
      dest!: field_name_scan_shorter format_spec_scan_shorter)

lemma markup_next_shorter:
  assumes "markup_next s = Inr (it, rest)" and "s \<noteq> []"
  shows "length rest < length s"
proof -
  have "length (dropWhile not_brace s) \<le> length s"
    by (rule length_dropWhile_le)
  with assms show ?thesis
    by (auto simp: markup_next_def Let_def split: list.splits if_splits sum.splits
        dest!: parse_field_shorter)
qed

text \<open>
  The whole template: the items read before the first syntax error, and that error if
  there is one. \<^verbatim>\<open>str.format\<close> renders item by item, so a field before the syntax error
  is rendered (and can raise) first.
\<close>

function markup_all :: "string \<Rightarrow> item list \<times> error option" where
  "markup_all s =
     (if s = [] then ([], None)
      else case markup_next s of
             Inl e \<Rightarrow> ([], Some e)
           | Inr (it, rest) \<Rightarrow> (case markup_all rest of (its, err) \<Rightarrow> (it # its, err)))"
  by pat_completeness auto
termination
  by (relation "measure length") (auto dest: markup_next_shorter)

declare markup_all.simps [simp del]

text \<open>\<^verbatim>\<open>string.Formatter().parse(s)\<close>, read to its end: the items, or the syntax error.\<close>

definition formatter_parse :: "string \<Rightarrow> error + item list" where
  "formatter_parse s =
     (case markup_all s of
        (items, None) \<Rightarrow> Inr items
      | (items, Some e) \<Rightarrow> Inl e)"

subsection \<open>Rendering: \<^verbatim>\<open>str.format(**kwargs)\<close>\<close>

text \<open>
  \<^verbatim>\<open>str.format\<close> is called with keyword arguments only, all of them strings. The first
  part of a field name (up to \<^verbatim>\<open>.\<close> or \<^verbatim>\<open>[\<close>) selects the argument: an empty first part or
  one that \<^verbatim>\<open>get_integer\<close> reads as an integer is a position, and there are no positional
  arguments; any other is looked up among the keywords. A field that is only a name
  puts the string in as it is.

  What Python does beyond that is library code this development does not reimplement:
  attribute and index access on the value, the conversions \<^verbatim>\<open>!r !s !a\<close> and the format
  spec mini-language. It is a parameter \<open>py\<close> of the model: \<open>get_field py v path conv\<close>
  is the object reached from the string \<open>v\<close> (or the exception raised on the way), and
  \<open>format_obj py obj spec\<close> is \<^verbatim>\<open>format(obj, spec)\<close>. Every theorem holds for all \<open>py\<close>.
\<close>

typedecl pyobj

record pylib =
  get_field :: "string \<Rightarrow> string \<Rightarrow> char option \<Rightarrow> error + pyobj"
  format_obj :: "pyobj \<Rightarrow> string \<Rightarrow> error + string"

definition is_digit :: "char \<Rightarrow> bool" where
  "is_digit c = (c \<in> set ''0123456789'')"

definition PY_SSIZE_T_MAX :: nat where
  "PY_SSIZE_T_MAX = 9223372036854775807"

text \<open>
  \<^verbatim>\<open>get_integer\<close> reads the first part of a field name from the left: a character that
  is no digit ends the scan with "not an integer" (\<open>None\<close>); a digit that would take the
  value past \<^verbatim>\<open>PY_SSIZE_T_MAX\<close> (of a 64-bit build) raises at once, whatever follows. The
  empty string is not an integer.
\<close>

fun scan_integer :: "nat \<Rightarrow> string \<Rightarrow> error + nat option" where
  "scan_integer accumulator [] = Inr (Some accumulator)"
| "scan_integer accumulator (c # cs) =
     (if \<not> is_digit c then Inr None
      else if (PY_SSIZE_T_MAX - (of_char c - 48)) div 10 < accumulator then
        Inl (ValueError ''Too many decimal digits in format string'')
      else scan_integer (accumulator * 10 + (of_char c - 48)) cs)"

definition get_integer :: "string \<Rightarrow> error + nat option" where
  "get_integer str = (if str = [] then Inr None else scan_integer 0 str)"

definition first_part :: "string \<Rightarrow> string" where
  "first_part name = takeWhile (\<lambda>c. c \<noteq> CHR ''.'' \<and> c \<noteq> CHR ''['') name"

definition rest_part :: "string \<Rightarrow> string" where
  "rest_part name = dropWhile (\<lambda>c. c \<noteq> CHR ''.'' \<and> c \<noteq> CHR ''['') name"

text \<open>
  The index as \<^verbatim>\<open>%zd\<close> prints it, read off the digits of the name: the digits without
  leading zeros; 0 for an empty name, the first automatic number.
\<close>

definition show_index :: "string \<Rightarrow> string" where
  "show_index ds =
     (let d = dropWhile (\<lambda>c. c = CHR ''0'') ds in if d = [] then ''0'' else d)"

definition render_field ::
    "pylib \<Rightarrow> (string \<Rightarrow> error + string) \<Rightarrow> dict \<Rightarrow> field \<Rightarrow> error + string" where
  "render_field py expand kwargs fld =
     (case fld of (name, spec, conv) \<Rightarrow>
        let first = first_part name; rest = rest_part name in
        case get_integer first of
          Inl e \<Rightarrow> Inl e
        | Inr first_idx \<Rightarrow>
            if first = [] \<or> first_idx \<noteq> None then
              Inl (IndexError (''Replacement index '' @ show_index first @
                               '' out of range for positional args tuple''))
            else
              (case map_of kwargs first of
                 None \<Rightarrow> Inl (KeyError first)
               | Some v \<Rightarrow>
                   if rest = [] \<and> conv = None \<and> spec = [] then Inr v
                   else
                     (case get_field py v rest conv of
                        Inl e \<Rightarrow> Inl e
                      | Inr obj \<Rightarrow>
                          (case (if CHR ''{'' \<in> set spec then expand spec else Inr spec) of
                             Inl e \<Rightarrow> Inl e
                           | Inr spec' \<Rightarrow> format_obj py obj spec'))))"

fun output_markup ::
    "pylib \<Rightarrow> (string \<Rightarrow> error + string) \<Rightarrow> dict \<Rightarrow> item list \<Rightarrow> error option
      \<Rightarrow> error + string" where
  "output_markup py expand kwargs [] None = Inr []"
| "output_markup py expand kwargs [] (Some e) = Inl e"
| "output_markup py expand kwargs ((lit, None) # items) err =
     (case output_markup py expand kwargs items err of
        Inl e \<Rightarrow> Inl e
      | Inr s \<Rightarrow> Inr (lit @ s))"
| "output_markup py expand kwargs ((lit, Some fld) # items) err =
     (case render_field py expand kwargs fld of
        Inl e \<Rightarrow> Inl e
      | Inr v \<Rightarrow>
          (case output_markup py expand kwargs items err of
             Inl e \<Rightarrow> Inl e
           | Inr s \<Rightarrow> Inr (lit @ v @ s)))"

text \<open>
  \<^verbatim>\<open>build_string\<close> with its recursion depth: a format spec that holds a brace is itself
  rendered, one level deeper; \<^verbatim>\<open>str.format\<close> starts at depth 2.
\<close>

primrec build_string :: "nat \<Rightarrow> pylib \<Rightarrow> dict \<Rightarrow> string \<Rightarrow> error + string" where
  "build_string 0 py kwargs s = Inl (ValueError ''Max string recursion exceeded'')"
| "build_string (Suc d) py kwargs s =
     (case markup_all s of
        (items, err) \<Rightarrow> output_markup py (build_string d py kwargs) kwargs items err)"

definition str_format :: "pylib \<Rightarrow> string \<Rightarrow> dict \<Rightarrow> error + string" where
  "str_format py s kwargs = build_string 2 py kwargs s"

section \<open>prompts.py: PromptTemplate\<close>

record PromptTemplate =
  prompt :: string
  sysmsg :: string
  prompt_placeholders :: "string list"
  sysmsg_placeholders :: "string list"
  prompt_kwargs :: dict
  sysmsg_kwargs :: dict

text \<open>\<^verbatim>\<open>tuple(f for _, f, _, _ in formatter.parse(_str) if f is not None)\<close>\<close>

definition field_names :: "item list \<Rightarrow> string list" where
  "field_names items = List.map_filter (\<lambda>(lit, fld). map_option fst fld) items"

definition get_string_placeholders :: "string \<Rightarrow> error + string list" where
  "get_string_placeholders str =
     (case formatter_parse str of
        Inl e \<Rightarrow> Inl e
      | Inr items \<Rightarrow> Inr (field_names items))"

text \<open>
  The constructor filters \<^verbatim>\<open>placeholder_kwargs\<close> with
  \<^verbatim>\<open>{k: v for k, v in placeholder_kwargs if k in self._prompt_placeholders}\<close>.
  Iterating a dict yields its keys, so \<^verbatim>\<open>k, v\<close> unpacks each key, a string, into its
  characters: a key of two characters gives \<open>k\<close> and \<open>v\<close>, any other length raises.
\<close>

definition unpack_pair :: "string \<Rightarrow> error + (string \<times> string)" where
  "unpack_pair key =
     (case key of
        [] \<Rightarrow> Inl (ValueError ''not enough values to unpack (expected 2, got 0)'')
      | [a] \<Rightarrow> Inl (ValueError ''not enough values to unpack (expected 2, got 1)'')
      | [a, b] \<Rightarrow> Inr ([a], [b])
      | a # b # c # rest \<Rightarrow> Inl (ValueError ''too many values to unpack (expected 2)''))"

fun filter_kwargs :: "string list \<Rightarrow> string list \<Rightarrow> dict \<Rightarrow> error + dict" where
  "filter_kwargs placeholders [] acc = Inr acc"
| "filter_kwargs placeholders (key # keys) acc =
     (case unpack_pair key of
        Inl e \<Rightarrow> Inl e
      | Inr (k, v) \<Rightarrow>
          filter_kwargs placeholders keys
            (if k \<in> set placeholders then AList.update k v acc else acc))"

definition or_empty :: "dict option \<Rightarrow> dict" where
  "or_empty d = (case d of None \<Rightarrow> [] | Some kw \<Rightarrow> kw)"

definition PromptTemplate_init ::
    "string \<Rightarrow> string \<Rightarrow> dict option \<Rightarrow> error + PromptTemplate" where
  "PromptTemplate_init prompt0 sysmsg0 placeholder_kwargs =
     (case get_string_placeholders prompt0 of
        Inl e \<Rightarrow> Inl e
      | Inr pp \<Rightarrow>
     (case get_string_placeholders sysmsg0 of
        Inl e \<Rightarrow> Inl e
      | Inr sp \<Rightarrow>
     (case filter_kwargs pp (dict_keys (or_empty placeholder_kwargs)) [] of
        Inl e \<Rightarrow> Inl e
      | Inr pk \<Rightarrow>
     (case filter_kwargs sp (dict_keys (or_empty placeholder_kwargs)) [] of
        Inl e \<Rightarrow> Inl e
      | Inr sk \<Rightarrow>
          Inr \<lparr>prompt = prompt0, sysmsg = sysmsg0, prompt_placeholders = pp,
               sysmsg_placeholders = sp, prompt_kwargs = pk, sysmsg_kwargs = sk\<rparr>))))"

definition placeholders_in_dict :: "string \<Rightarrow> dict \<Rightarrow> warning list \<times> (error + bool)" where
  "placeholders_in_dict str kwargs =
     (case get_string_placeholders str of
        Inl e \<Rightarrow> ([], Inl e)
      | Inr ps \<Rightarrow>
          let str_set = set ps; kwargs_set = set (dict_keys kwargs) in
          if \<not> str_set \<subseteq> kwargs_set then ([], Inl (MissingParameters (str_set - kwargs_set)))
          else if \<not> kwargs_set \<subseteq> str_set then
            ([ExtraParameters (kwargs_set - str_set)], Inr False)
          else ([], Inr True))"

definition get_formatted :: "pylib \<Rightarrow> string \<Rightarrow> dict option \<Rightarrow> warning list \<times> (error + string)" where
  "get_formatted py to_format format_kwargs =
     (case placeholders_in_dict to_format (or_empty format_kwargs) of
        (ws, Inl e) \<Rightarrow> (ws, Inl e)
      | (ws, Inr ok) \<Rightarrow> (ws, str_format py to_format (or_empty format_kwargs)))"

definition get_formatted_prompt ::
    "pylib \<Rightarrow> PromptTemplate \<Rightarrow> dict \<Rightarrow> warning list \<times> (error + string)" where
  "get_formatted_prompt py self kwargs =
     (let intersect = set (dict_keys (prompt_kwargs self)) \<inter> set (dict_keys kwargs);
          ws = (if intersect \<noteq> {} then [Overridden intersect] else [])
      in case get_formatted py (prompt self) (Some (dict_merge (prompt_kwargs self) kwargs)) of
           (ws', r) \<Rightarrow> (ws @ ws', r))"

definition get_formatted_sysmsg ::
    "pylib \<Rightarrow> PromptTemplate \<Rightarrow> dict \<Rightarrow> warning list \<times> (error + string)" where
  "get_formatted_sysmsg py self kwargs =
     (let intersect = set (dict_keys (sysmsg_kwargs self)) \<inter> set (dict_keys kwargs);
          ws = (if intersect \<noteq> {} then [Overridden intersect] else [])
      in case get_formatted py (sysmsg self) (Some (dict_merge (sysmsg_kwargs self) kwargs)) of
           (ws', r) \<Rightarrow> (ws @ ws', r))"

definition prompt_placehodlers :: "PromptTemplate \<Rightarrow> string list" where
  "prompt_placehodlers self = prompt_placeholders self"

definition sysmsg_params :: "PromptTemplate \<Rightarrow> string list" where
  "sysmsg_params self = sysmsg_placeholders self"

section \<open>prompts.py: PromptConfig\<close>

record PromptConfig =
  translation_prompt :: PromptTemplate
  reflection_prompt :: PromptTemplate
  improvement_prompt :: PromptTemplate

definition REQUIRED_PROMPT_PLACEHOLDERS :: "(string \<times> string list) list" where
  "REQUIRED_PROMPT_PLACEHOLDERS =
     [(''translation'', [''source_lang'', ''target_lang'', ''source_chunk'']),
      (''reflection'', [''source_lang'', ''target_lang'', ''source_chunk'', ''translated_chunk'']),
      (''improvement'', [''source_lang'', ''target_lang'', ''source_chunk'', ''translated_chunk'',
                         ''reflection_chunk''])]"

text \<open>\<^verbatim>\<open>getattr(self, f"_{prompt_type}_prompt")\<close> on the three attributes just stored.\<close>

definition getattr_prompt :: "PromptConfig \<Rightarrow> string \<Rightarrow> error + PromptTemplate" where
  "getattr_prompt self prompt_type =
     (if prompt_type = ''translation'' then Inr (translation_prompt self)
      else if prompt_type = ''reflection'' then Inr (reflection_prompt self)
      else if prompt_type = ''improvement'' then Inr (improvement_prompt self)
      else Inl (OtherError (''AttributeError: _'' @ prompt_type @ ''_prompt'')))"

fun check_placeholders :: "string \<Rightarrow> PromptTemplate \<Rightarrow> string list \<Rightarrow> error + unit" where
  "check_placeholders prompt_type p [] = Inr ()"
| "check_placeholders prompt_type p (placeholder # required) =
     (if placeholder \<notin> set (prompt_placehodlers p) then
        Inl (ValueError (prompt_type @ '' prompt must contain the placeholder '' @
                         [CHR 0x27] @ placeholder @ [CHR 0x27] @ ''.''))
      else check_placeholders prompt_type p required)"

fun check_prompts :: "PromptConfig \<Rightarrow> (string \<times> string list) list \<Rightarrow> error + unit" where
  "check_prompts self [] = Inr ()"
| "check_prompts self ((prompt_type, required_placeholders) # items) =
     (case getattr_prompt self prompt_type of
        Inl e \<Rightarrow> Inl e
      | Inr p \<Rightarrow>
          (case check_placeholders prompt_type p required_placeholders of
             Inl e \<Rightarrow> Inl e
           | Inr u \<Rightarrow> check_prompts self items))"

definition PromptConfig_init ::
    "PromptTemplate \<Rightarrow> PromptTemplate \<Rightarrow> PromptTemplate \<Rightarrow> error + PromptConfig" where
  "PromptConfig_init tranlsation_prompt reflection_prompt0 improvement_prompt0 =
     (let self = \<lparr>translation_prompt = tranlsation_prompt,
                  reflection_prompt = reflection_prompt0,
                  improvement_prompt = improvement_prompt0\<rparr>
      in case check_prompts self REQUIRED_PROMPT_PLACEHOLDERS of
           Inl e \<Rightarrow> Inl e
         | Inr u \<Rightarrow> Inr self)"

section \<open>agents.py: SimpleTranslationAgent\<close>

text \<open>
  The buffer is a dict with up to five keys; a key that is absent is \<open>None\<close> here.
  \<open>priv_buffer\<close> is the attribute \<^verbatim>\<open>_buffer\<close>: \<^verbatim>\<open>None\<close> or such a dict. The language model
  and the text splitter are the two collaborators of the agent; each is a function that
  returns its result or the exception it raises. \<open>llm self p s\<close> is
  \<^verbatim>\<open>self.llm.get_completion(prompt=p, sysmsg=s)\<close>: the answer to a request depends on the
  request only, not on when a worker sends it. Debug output (\<^verbatim>\<open>verbose\<close>) is left out.
\<close>

record buffer_dict =
  source_chunks :: "string list option"
  num_chunks :: "nat option"
  translated_chunks :: "string list option"
  reflection_chunks :: "string list option"
  improved_chunks :: "string list option"

record SimpleTranslationAgent =
  llm :: "string \<Rightarrow> string \<Rightarrow> error + string"
  text_splitter :: "string \<Rightarrow> error + string list"
  prompts :: PromptConfig
  source_lang :: string
  target_lang :: string
  source_text_tag :: "string option"
  max_workers :: "int option"
  priv_buffer :: "buffer_dict option"

definition empty_buffer :: buffer_dict where
  "empty_buffer = \<lparr>source_chunks = None, num_chunks = None, translated_chunks = None,
                    reflection_chunks = None, improved_chunks = None\<rparr>"

definition default_kwargs :: "SimpleTranslationAgent \<Rightarrow> dict" where
  "default_kwargs self = [(''source_lang'', source_lang self), (''target_lang'', target_lang self)]"

text \<open>Truth value of \<^verbatim>\<open>self._buffer\<close>: false for \<^verbatim>\<open>None\<close> and for the empty dict.\<close>

definition truthy :: "buffer_dict option \<Rightarrow> bool" where
  "truthy b = (b \<noteq> None \<and> b \<noteq> Some empty_buffer)"

text \<open>The property \<^verbatim>\<open>buffer\<close>: \<^verbatim>\<open>self._buffer or {}\<close>.\<close>

definition buffer :: "SimpleTranslationAgent \<Rightarrow> buffer_dict" where
  "buffer self = (case priv_buffer self of None \<Rightarrow> empty_buffer | Some b \<Rightarrow> b)"

text \<open>\<^verbatim>\<open>self._buffer[key]\<close>: a \<^verbatim>\<open>TypeError\<close> on \<^verbatim>\<open>None\<close>, a \<^verbatim>\<open>KeyError\<close> on an absent key.\<close>

definition buffer_get :: "buffer_dict option \<Rightarrow> (buffer_dict \<Rightarrow> 'a option) \<Rightarrow> string \<Rightarrow> error + 'a" where
  "buffer_get b field key =
     (case b of
        None \<Rightarrow> Inl (TypeError ([CHR 0x27] @ ''NoneType'' @ [CHR 0x27] @ '' object is not subscriptable''))
      | Some d \<Rightarrow> (case field d of None \<Rightarrow> Inl (KeyError key) | Some v \<Rightarrow> Inr v))"

text \<open>List indexing and slicing with Python's negative indices.\<close>

definition py_index :: "'a list \<Rightarrow> int \<Rightarrow> error + 'a" where
  "py_index xs i =
     (let n = int (length xs); j = (if i < 0 then n + i else i) in
      if 0 \<le> j \<and> j < n then Inr (xs ! nat j) else Inl (IndexError ''list index out of range''))"

definition slice_to :: "'a list \<Rightarrow> int \<Rightarrow> 'a list" where
  "slice_to xs i = take (nat (if i < 0 then int (length xs) + i else i)) xs"

definition slice_from :: "'a list \<Rightarrow> int \<Rightarrow> 'a list" where
  "slice_from xs i = drop (nat (if i < 0 then int (length xs) + i else i)) xs"

definition py_str :: "string option \<Rightarrow> string" where
  "py_str t = (case t of None \<Rightarrow> ''None'' | Some s \<Rightarrow> s)"

definition tag_chunk :: "string \<Rightarrow> string option \<Rightarrow> string" where
  "tag_chunk chunk tag = ''<'' @ py_str tag @ ''>'' @ chunk @ ''</'' @ py_str tag @ ''>''"

definition get_tagged_source_text :: "SimpleTranslationAgent \<Rightarrow> int \<Rightarrow> error + dict" where
  "get_tagged_source_text self chunk_idx =
     (if \<not> truthy (priv_buffer self) then
        Inl (ValueError ''Buffer is empty. Run agentic_translate first.'')
      else
        (case source_chunks (buffer self) of
           None \<Rightarrow> Inl (ValueError ''Source chunks not found in buffer. Run agentic_translate first.'')
         | Some chnks \<Rightarrow>
             (case py_index chnks chunk_idx of
                Inl e \<Rightarrow> Inl e
              | Inr chunk \<Rightarrow>
                  Inr [(''source_chunk'', chunk),
                       (''source_tagged'',
                        concat (slice_to chnks chunk_idx
                                @ [tag_chunk chunk (source_text_tag self)]
                                @ slice_from chnks (chunk_idx + 1)))])))"

text \<open>
  \<^verbatim>\<open>query_model\<close> runs in a worker thread. The warnings of the two renderings are emitted
  there, in an order only the scheduler fixes, and are no part of the result.
\<close>

definition query_model ::
    "pylib \<Rightarrow> SimpleTranslationAgent \<Rightarrow> nat \<Rightarrow> PromptTemplate \<Rightarrow> dict option \<Rightarrow> dict option
      \<Rightarrow> error + (nat \<times> string)" where
  "query_model py self chunk_id prompt_template prompt_kwargs0 sysmsg_kwargs0 =
     (case snd (get_formatted_prompt py prompt_template (or_empty prompt_kwargs0)) of
        Inl e \<Rightarrow> Inl e
      | Inr p \<Rightarrow>
     (case snd (get_formatted_sysmsg py prompt_template (or_empty sysmsg_kwargs0)) of
        Inl e \<Rightarrow> Inl e
      | Inr s \<Rightarrow>
     (case llm self p s of
        Inl e \<Rightarrow> Inl e
      | Inr completion \<Rightarrow> Inr (chunk_id, completion))))"

subsection \<open>The three stage methods\<close>

text \<open>
  \<^verbatim>\<open>translate\<close>, \<^verbatim>\<open>reflect\<close> and \<^verbatim>\<open>improve\<close> share their text but for the job they submit
  for a chunk index. The main thread opens the pool, reads \<^verbatim>\<open>num_chunks\<close> and, for
  \<^verbatim>\<open>idx\<close> in \<^verbatim>\<open>range(num_chunks)\<close>, evaluates the arguments of \<^verbatim>\<open>executor.submit\<close>: an
  exception there leaves the method. A submitted job is a future: the value
  \<^verbatim>\<open>query_model\<close> returns in its worker, or the exception it raises.

  \<^verbatim>\<open>as_completed(futures)\<close> yields every future once, in the order the workers finish:
  that order is the argument \<open>order\<close>, a list of chunk indices, in a run a permutation of
  the indices submitted (an index that was not submitted has no future and is passed
  over). The loop appends a result to \<^verbatim>\<open>output\<close>; its handler is \<^verbatim>\<open>except Exception\<close>, so
  it prints a failure that is an instance of \<^verbatim>\<open>Exception\<close> with its index (\<open>printed\<close>, the
  lines in the order printed, each the index and the exception) and goes on, while any
  other exception of \<^verbatim>\<open>future.result()\<close> leaves the loop and the method: the lines printed
  up to then stay printed. When the loop ends, \<^verbatim>\<open>output\<close> is sorted by chunk index.
\<close>

definition ThreadPoolExecutor :: "int option \<Rightarrow> error + unit" where
  "ThreadPoolExecutor workers =
     (case workers of
        None \<Rightarrow> Inr ()
      | Some n \<Rightarrow> if n \<le> 0 then Inl (ValueError ''max_workers must be greater than 0'') else Inr ())"

type_synonym future = "error + (nat \<times> string)"

fun submit_all :: "(nat \<Rightarrow> error + future) \<Rightarrow> nat list \<Rightarrow> error + (nat \<times> future) list" where
  "submit_all job [] = Inr []"
| "submit_all job (idx # rest) =
     (case job idx of
        Inl e \<Rightarrow> Inl e
      | Inr f \<Rightarrow>
          (case submit_all job rest of
             Inl e \<Rightarrow> Inl e
           | Inr fs \<Rightarrow> Inr ((idx, f) # fs)))"

fun as_completed_loop ::
    "(nat \<times> future) list \<Rightarrow> nat list
      \<Rightarrow> (nat \<times> error) list \<times> (error + (nat \<times> string) list)" where
  "as_completed_loop futures [] = ([], Inr [])"
| "as_completed_loop futures (idx # rest) =
     (case map_of futures idx of
        None \<Rightarrow> as_completed_loop futures rest
      | Some (Inr result) \<Rightarrow>
          (case as_completed_loop futures rest of
             (printed, Inl e) \<Rightarrow> (printed, Inl e)
           | (printed, Inr output) \<Rightarrow> (printed, Inr (result # output)))
      | Some (Inl e) \<Rightarrow>
          if is_Exception e then
            (case as_completed_loop futures rest of
               (printed, r) \<Rightarrow> ((idx, e) # printed, r))
          else ([], Inl e))"

definition run_stage ::
    "SimpleTranslationAgent \<Rightarrow> (nat \<Rightarrow> error + future) \<Rightarrow> nat list
      \<Rightarrow> (nat \<times> error) list \<times> (error + string list)" where
  "run_stage self job order =
     (case ThreadPoolExecutor (max_workers self) of
        Inl e \<Rightarrow> ([], Inl e)
      | Inr u \<Rightarrow>
     (case buffer_get (priv_buffer self) num_chunks ''num_chunks'' of
        Inl e \<Rightarrow> ([], Inl e)
      | Inr n \<Rightarrow>
     (case submit_all job [0..<n] of
        Inl e \<Rightarrow> ([], Inl e)
      | Inr futures \<Rightarrow>
          (case as_completed_loop futures order of
             (printed, Inl e) \<Rightarrow> (printed, Inl e)
           | (printed, Inr output) \<Rightarrow> (printed, Inr (map snd (sort_key fst output)))))))"

definition translate_job :: "pylib \<Rightarrow> SimpleTranslationAgent \<Rightarrow> nat \<Rightarrow> error + future" where
  "translate_job py self idx =
     (case get_tagged_source_text self (int idx) of
        Inl e \<Rightarrow> Inl e
      | Inr tagged \<Rightarrow>
          Inr (query_model py self idx (translation_prompt (prompts self))
                 (Some (dict_merge (default_kwargs self) tagged))
                 (Some (default_kwargs self))))"

definition reflect_job :: "pylib \<Rightarrow> SimpleTranslationAgent \<Rightarrow> nat \<Rightarrow> error + future" where
  "reflect_job py self idx =
     (case buffer_get (priv_buffer self) translated_chunks ''translated_chunks'' of
        Inl e \<Rightarrow> Inl e
      | Inr translated \<Rightarrow>
     (case py_index translated (int idx) of
        Inl e \<Rightarrow> Inl e
      | Inr translated_chunk \<Rightarrow>
     (case get_tagged_source_text self (int idx) of
        Inl e \<Rightarrow> Inl e
      | Inr tagged \<Rightarrow>
          Inr (query_model py self idx (reflection_prompt (prompts self))
                 (Some (dict_merge
                          (dict_merge [(''translated_chunk'', translated_chunk)]
                             (default_kwargs self))
                          tagged))
                 (Some (default_kwargs self))))))"

definition improve_job :: "pylib \<Rightarrow> SimpleTranslationAgent \<Rightarrow> nat \<Rightarrow> error + future" where
  "improve_job py self idx =
     (case buffer_get (priv_buffer self) translated_chunks ''translated_chunks'' of
        Inl e \<Rightarrow> Inl e
      | Inr translated \<Rightarrow>
     (case py_index translated (int idx) of
        Inl e \<Rightarrow> Inl e
      | Inr translated_chunk \<Rightarrow>
     (case buffer_get (priv_buffer self) reflection_chunks ''reflection_chunks'' of
        Inl e \<Rightarrow> Inl e
      | Inr reflection \<Rightarrow>
     (case py_index reflection (int idx) of
        Inl e \<Rightarrow> Inl e
      | Inr reflection_chunk \<Rightarrow>
     (case get_tagged_source_text self (int idx) of
        Inl e \<Rightarrow> Inl e
      | Inr tagged \<Rightarrow>
          Inr (query_model py self idx (improvement_prompt (prompts self))
                 (Some (dict_merge
                          (dict_merge
                             [(''translated_chunk'', translated_chunk),
                              (''reflection_chunk'', reflection_chunk)]
                             (default_kwargs self))
                          tagged))
                 (Some (default_kwargs self))))))))"

definition translate ::
    "pylib \<Rightarrow> SimpleTranslationAgent \<Rightarrow> nat list \<Rightarrow> (nat \<times> error) list \<times> (error + string list)" where
  "translate py self order = run_stage self (translate_job py self) order"

definition reflect ::
    "pylib \<Rightarrow> SimpleTranslationAgent \<Rightarrow> nat list \<Rightarrow> (nat \<times> error) list \<times> (error + string list)" where
  "reflect py self order = run_stage self (reflect_job py self) order"

definition improve ::
    "pylib \<Rightarrow> SimpleTranslationAgent \<Rightarrow> nat list \<Rightarrow> (nat \<times> error) list \<times> (error + string list)" where
  "improve py self order = run_stage self (improve_job py self) order"

subsection \<open>agentic_translate\<close>

text \<open>
  The method mutates \<^verbatim>\<open>self._buffer\<close>, so the model returns the agent as the call leaves
  it, also when the call raises. \<open>ord_t\<close>, \<open>ord_r\<close> and \<open>ord_i\<close> are the completion
  orders of the three stages. The result holds the warnings and the printed lines
  of the main thread, the returned string or the exception, and the agent.
\<close>

definition set_buffer :: "SimpleTranslationAgent \<Rightarrow> buffer_dict \<Rightarrow> SimpleTranslationAgent" where
  "set_buffer self b = self\<lparr>priv_buffer := Some b\<rparr>"

definition agentic_translate ::
    "pylib \<Rightarrow> SimpleTranslationAgent \<Rightarrow> string \<Rightarrow> bool \<Rightarrow> nat list \<Rightarrow> nat list \<Rightarrow> nat list
      \<Rightarrow> warning list \<times> (nat \<times> error) list \<times> (error + string) \<times> SimpleTranslationAgent" where
  "agentic_translate py self source_text clear_buffer ord_t ord_r ord_i =
     (let w1 = (if truthy (priv_buffer self) then [BufferNotEmpty] else []);
          self0 = set_buffer self empty_buffer
      in case text_splitter self source_text of
           Inl e \<Rightarrow> (w1, [], Inl e, self0)
         | Inr chunks \<Rightarrow>
     (let b1 = empty_buffer\<lparr>source_chunks := Some chunks, num_chunks := Some (length chunks)\<rparr>;
          self1 = set_buffer self b1;
          w2 = w1 @ (if length chunks = 1 then [SourceTooShort] else [])
      in case translate py self1 ord_t of
           (p1, Inl e) \<Rightarrow> (w2, p1, Inl e, self1)
         | (p1, Inr translated) \<Rightarrow>
     (let b2 = b1\<lparr>translated_chunks := Some translated\<rparr>;
          self2 = set_buffer self b2
      in case reflect py self2 ord_r of
           (p2, Inl e) \<Rightarrow> (w2, p1 @ p2, Inl e, self2)
         | (p2, Inr reflection) \<Rightarrow>
     (let b3 = b2\<lparr>reflection_chunks := Some reflection\<rparr>;
          self3 = set_buffer self b3
      in case improve py self3 ord_i of
           (p3, Inl e) \<Rightarrow> (w2, p1 @ p2 @ p3, Inl e, self3)
         | (p3, Inr improved) \<Rightarrow>
     (let b4 = b3\<lparr>improved_chunks := Some improved\<rparr>;
          final = concat improved
      in (w2, p1 @ p2 @ p3, Inr final,
          if clear_buffer then self\<lparr>priv_buffer := None\<rparr> else set_buffer self b4))))))"

section \<open>splitters.py\<close>

text \<open>\<^verbatim>\<open>range(0, stop, step)\<close> and the slice \<^verbatim>\<open>text[i:j]\<close>.\<close>

definition py_range0 :: "int \<Rightarrow> int \<Rightarrow> error + int list" where
  "py_range0 stop step =
     (if step = 0 then Inl (ValueError ''range() arg 3 must not be zero'')
      else if 0 < step then Inr (map (\<lambda>k. int k * step) [0..<nat ((stop + step - 1) div step)])
      else Inr (map (\<lambda>k. int k * step) [0..<nat ((- stop - step - 1) div (- step))]))"

definition py_slice :: "'a list \<Rightarrow> int \<Rightarrow> int \<Rightarrow> 'a list" where
  "py_slice xs i j =
     (let n = int (length xs);
          lo = (if i < 0 then max 0 (n + i) else min i n);
          hi = (if j < 0 then max 0 (n + j) else min j n)
      in drop (nat lo) (take (nat hi) xs))"

definition UniformTextSplitter_split_text :: "int \<Rightarrow> string \<Rightarrow> error + string list" where
  "UniformTextSplitter_split_text num_chunks0 text =
     (if num_chunks0 = 0 then Inl (ZeroDivisionError ''integer division or modulo by zero'')
      else
        (let chunk_size = int (length text) div num_chunks0 in
         case py_range0 (int (length text)) chunk_size of
           Inl e \<Rightarrow> Inl e
         | Inr starts \<Rightarrow> Inr (map (\<lambda>i. py_slice text i (i + chunk_size)) starts)))"

text \<open>\<^verbatim>\<open>text.split(sep)\<close> for a separator of one character; \<open>acc\<close> is the piece being read.\<close>

fun str_split :: "char \<Rightarrow> string \<Rightarrow> string \<Rightarrow> string list" where
  "str_split sep acc [] = [rev acc]"
| "str_split sep acc (c # cs) =
     (if c = sep then rev acc # str_split sep [] cs else str_split sep (c # acc) cs)"

definition NewLineSplitter_split_text :: "string \<Rightarrow> string list" where
  "NewLineSplitter_split_text text = str_split (CHR 0x0A) [] text"

definition SentenceSplitter_split_text :: "string \<Rightarrow> string list" where
  "SentenceSplitter_split_text text = str_split (CHR ''.'') [] text"

section \<open>Notions used to state the properties\<close>

text \<open>
  What the \<^verbatim>\<open>as_completed\<close> loop prints and collects when the future of chunk \<open>i\<close> is
  \<open>f i\<close>, the futures complete in the order \<open>idxs\<close> and the loop reaches its end.
\<close>

definition failures :: "(nat \<Rightarrow> future) \<Rightarrow> nat list \<Rightarrow> (nat \<times> error) list" where
  "failures f idxs =
     List.map_filter (\<lambda>i. case f i of Inl e \<Rightarrow> Some (i, e) | Inr r \<Rightarrow> None) idxs"

definition successes :: "(nat \<Rightarrow> future) \<Rightarrow> nat list \<Rightarrow> (nat \<times> string) list" where
  "successes f idxs =
     List.map_filter (\<lambda>i. case f i of Inl e \<Rightarrow> None | Inr r \<Rightarrow> Some r) idxs"

text \<open>
  The handler \<^verbatim>\<open>except Exception\<close> of the loop catches what a future raises, if it raises.
\<close>

definition caught :: "future \<Rightarrow> bool" where
  "caught fu = (case fu of Inl e \<Rightarrow> is_Exception e | Inr r \<Rightarrow> True)"

text \<open>
  The number a string of decimal digits denotes. A plain field is \<^verbatim>\<open>{name}\<close> with a
  keyword name: not empty, not made of decimal digits only, the digits it starts with
  (if any) denoting a number of at most \<^verbatim>\<open>sys.maxsize\<close>, and without attribute or index
  access, conversion or format spec. \<open>substitute\<close> is the template with every field
  replaced by the value bound to its name: the fully substituted string a rendering is
  expected to return.
\<close>

definition decimal_value :: "string \<Rightarrow> nat" where
  "decimal_value ds = foldl (\<lambda>a c. a * 10 + (of_char c - 48)) 0 ds"

definition plain_field :: "field \<Rightarrow> bool" where
  "plain_field fld =
     (case fld of (name, spec, conv) \<Rightarrow>
        name \<noteq> [] \<and> \<not> list_all is_digit name
        \<and> decimal_value (takeWhile is_digit name) \<le> PY_SSIZE_T_MAX
        \<and> CHR ''.'' \<notin> set name \<and> CHR ''['' \<notin> set name
        \<and> spec = [] \<and> conv = None)"

definition plain_items :: "item list \<Rightarrow> bool" where
  "plain_items items =
     list_all (\<lambda>(lit, fld). case fld of None \<Rightarrow> True | Some f \<Rightarrow> plain_field f) items"

definition substitute :: "item list \<Rightarrow> dict \<Rightarrow> string" where
  "substitute items kwargs =
     concat (map (\<lambda>(lit, fld). lit @ (case fld of
                                        None \<Rightarrow> []
                                      | Some (name, spec, conv) \<Rightarrow>
                                          (case map_of kwargs name of None \<Rightarrow> [] | Some v \<Rightarrow> v)))
             items)"

section \<open>A small agent for the concrete instances\<close>

text \<open>
  The instances below run the model on an agent that translates \<^verbatim>\<open>Hello, world.\<close> in two
  chunks. Its three prompts hold exactly the placeholders \<^verbatim>\<open>PromptConfig\<close> requires, so
  no field of them reaches the library parameter; \<open>ex_py\<close> only fills that argument.
  \<open>ex_llm\<close> answers the six prompts of a run; \<open>ex_llm_down\<close> is the same model with
  the translation of the first chunk failing. \<open>ex_llm_raising\<close> is the same model
  raising the given exceptions on the given prompts: \<open>ex_agent_exit\<close> has the completion
  call for the first chunk raise \<^verbatim>\<open>SystemExit\<close>, and \<open>ex_agent_exits\<close> has, besides, the
  one for the second chunk raise \<^verbatim>\<open>asyncio.CancelledError\<close>; neither exception is an
  instance of \<^verbatim>\<open>Exception\<close>.
\<close>

definition ex_py :: pylib where
  "ex_py = \<lparr>get_field = (\<lambda>v path conv. Inl (OtherError ''not used'')),
            format_obj = (\<lambda>obj spec. Inl (OtherError ''not used''))\<rparr>"

definition ex_translation :: PromptTemplate where
  "ex_translation =
     \<lparr>prompt = ''{source_lang}{target_lang}{source_chunk}'', sysmsg = ''sys'',
      prompt_placeholders = [''source_lang'', ''target_lang'', ''source_chunk''],
      sysmsg_placeholders = [], prompt_kwargs = [], sysmsg_kwargs = []\<rparr>"

definition ex_reflection :: PromptTemplate where
  "ex_reflection =
     \<lparr>prompt = ''{source_lang}{target_lang}{source_chunk}{translated_chunk}'', sysmsg = ''sys'',
      prompt_placeholders = [''source_lang'', ''target_lang'', ''source_chunk'',
                             ''translated_chunk''],
      sysmsg_placeholders = [], prompt_kwargs = [], sysmsg_kwargs = []\<rparr>"

definition ex_improvement :: PromptTemplate where
  "ex_improvement =
     \<lparr>prompt = ''{source_lang}{target_lang}{source_chunk}{translated_chunk}{reflection_chunk}'',
      sysmsg = ''sys'',
      prompt_placeholders = [''source_lang'', ''target_lang'', ''source_chunk'',
                             ''translated_chunk'', ''reflection_chunk''],
      sysmsg_placeholders = [], prompt_kwargs = [], sysmsg_kwargs = []\<rparr>"

definition ex_prompts :: PromptConfig where
  "ex_prompts = \<lparr>translation_prompt = ex_translation, reflection_prompt = ex_reflection,
                  improvement_prompt = ex_improvement\<rparr>"

definition ex_llm :: "string \<Rightarrow> string \<Rightarrow> error + string" where
  "ex_llm p s =
     (case map_of [(''enfrHello, '', ''Salut, ''), (''enfrworld.'', ''monde''),
                   (''enfrHello, Salut, '', ''formal''), (''enfrworld.monde'', ''dot''),
                   (''enfrHello, Salut, formal'', ''Bonjour, ''),
                   (''enfrworld.mondedot'', ''monde.'')] p of
        None \<Rightarrow> Inl (OtherError ''timeout'')
      | Some c \<Rightarrow> Inr c)"

definition ex_llm_down :: "string \<Rightarrow> string \<Rightarrow> error + string" where
  "ex_llm_down p s = (if p = ''enfrHello, '' then Inl (OtherError ''timeout'') else ex_llm p s)"

definition ex_llm_raising :: "(string \<times> error) list \<Rightarrow> string \<Rightarrow> string \<Rightarrow> error + string" where
  "ex_llm_raising raised p s = (case map_of raised p of None \<Rightarrow> ex_llm p s | Some e \<Rightarrow> Inl e)"

definition ex_agent :: SimpleTranslationAgent where
  "ex_agent = \<lparr>llm = ex_llm, text_splitter = (\<lambda>text. Inr [''Hello, '', ''world.'']),
               prompts = ex_prompts, source_lang = ''en'', target_lang = ''fr'',
               source_text_tag = Some ''T'', max_workers = Some 10, priv_buffer = None\<rparr>"

definition ex_agent_down :: SimpleTranslationAgent where
  "ex_agent_down = ex_agent\<lparr>llm := ex_llm_down\<rparr>"

definition ex_agent_exit :: SimpleTranslationAgent where
  "ex_agent_exit =
     ex_agent\<lparr>llm := ex_llm_raising [(''enfrHello, '', BaseException ''SystemExit'')]\<rparr>"

definition ex_agent_exits :: SimpleTranslationAgent where
  "ex_agent_exits =
     ex_agent\<lparr>llm := ex_llm_raising [(''enfrHello, '', BaseException ''SystemExit''),
                                      (''enfrworld.'', BaseException ''CancelledError'')]\<rparr>"

definition ex_buffer :: buffer_dict where
  "ex_buffer = \<lparr>source_chunks = Some [''Hello, '', ''world.''], num_chunks = Some 2,
                 translated_chunks = None, reflection_chunks = None, improved_chunks = None\<rparr>"

section \<open>Properties\<close>

subsection \<open>Evaluation of the concrete instances\<close>

text \<open>
  The definitions a concrete instance unfolds. \<open>markup_all.simps\<close> is not a default
  simplification rule; it is used only where the template is a literal.
\<close>

lemma str_format_unfold:
  "str_format py s kwargs =
     (case markup_all s of
        (items, err) \<Rightarrow> output_markup py (build_string (Suc 0) py kwargs) kwargs items err)"
  by (simp add: str_format_def numeral_2_eq_2)

lemmas parse_defs = markup_all.simps markup_next_def parse_field_def not_brace_def
  formatter_parse_def get_string_placeholders_def field_names_def
lemmas format_defs = str_format_unfold render_field_def first_part_def rest_part_def
  is_digit_def get_integer_def PY_SSIZE_T_MAX_def show_index_def
lemmas template_defs = get_formatted_def get_formatted_prompt_def get_formatted_sysmsg_def
  placeholders_in_dict_def or_empty_def dict_keys_def dict_merge_def
lemmas job_defs = translate_job_def reflect_job_def improve_job_def get_tagged_source_text_def
  buffer_def buffer_get_def truthy_def empty_buffer_def py_index_def slice_to_def slice_from_def
  tag_chunk_def py_str_def default_kwargs_def query_model_def set_buffer_def
lemmas ex_defs = ex_py_def ex_agent_def ex_agent_down_def ex_buffer_def ex_prompts_def
  ex_translation_def ex_reflection_def ex_improvement_def ex_llm_def ex_llm_down_def
  ex_agent_exit_def ex_agent_exits_def ex_llm_raising_def

lemma ex_translation_init:
  "PromptTemplate_init ''{source_lang}{target_lang}{source_chunk}'' ''sys'' None
     = Inr ex_translation"
  by (simp add: PromptTemplate_init_def parse_defs or_empty_def dict_keys_def ex_translation_def)

lemma ex_reflection_init:
  "PromptTemplate_init ''{source_lang}{target_lang}{source_chunk}{translated_chunk}'' ''sys'' None
     = Inr ex_reflection"
  by (simp add: PromptTemplate_init_def parse_defs or_empty_def dict_keys_def ex_reflection_def)

lemma ex_improvement_init:
  "PromptTemplate_init
     ''{source_lang}{target_lang}{source_chunk}{translated_chunk}{reflection_chunk}'' ''sys'' None
     = Inr ex_improvement"
  by (simp add: PromptTemplate_init_def parse_defs or_empty_def dict_keys_def ex_improvement_def)

subsection \<open>PromptConfig: the placeholder contract\<close>

lemma check_placeholders_ok:
  "set required \<subseteq> set (prompt_placehodlers p) \<Longrightarrow> check_placeholders ty p required = Inr ()"
  by (induction required) auto

lemma check_placeholders_fail:
  "\<not> set required \<subseteq> set (prompt_placehodlers p) \<Longrightarrow>
     \<exists>msg. check_placeholders ty p required = Inl (ValueError msg)"
  by (induction required) auto

lemma PromptTemplate_init_placeholders:
  "PromptTemplate_init p s kw = Inr t \<Longrightarrow>
     prompt t = p \<and> get_string_placeholders p = Inr (prompt_placehodlers t)"
  by (auto simp: PromptTemplate_init_def prompt_placehodlers_def split: sum.splits)

text \<open>
  \<^bold>\<open>Claim C4.\<close> Let \<open>t\<close>, \<open>r\<close> and \<open>i\<close> be the translation, reflection and improvement
  templates, built by the constructor of \<^verbatim>\<open>PromptTemplate\<close> from the prompt strings \<open>p1\<close>,
  \<open>p2\<close> and \<open>p3\<close>; the placeholders the configuration checks are those of these prompt
  strings. Constructing the \<^verbatim>\<open>PromptConfig\<close> succeeds, with the three templates stored,
  exactly when each prompt string holds every placeholder required for its role:
  \<^verbatim>\<open>source_lang\<close>, \<^verbatim>\<open>target_lang\<close>, \<^verbatim>\<open>source_chunk\<close> for translation, also
  \<^verbatim>\<open>translated_chunk\<close> for reflection, also \<^verbatim>\<open>reflection_chunk\<close> for improvement. When
  any of them is missing the constructor raises a \<^verbatim>\<open>ValueError\<close>: no configuration exists,
  so no agent holds it and no unit is dispatched.
\<close>

theorem PromptConfig_init_contract:
  assumes "PromptTemplate_init p1 s1 k1 = Inr t"
      and "PromptTemplate_init p2 s2 k2 = Inr r"
      and "PromptTemplate_init p3 s3 k3 = Inr i"
  shows "get_string_placeholders p1 = Inr (prompt_placehodlers t)
       \<and> get_string_placeholders p2 = Inr (prompt_placehodlers r)
       \<and> get_string_placeholders p3 = Inr (prompt_placehodlers i)
       \<and> (if {''source_lang'', ''target_lang'', ''source_chunk''} \<subseteq> set (prompt_placehodlers t)
            \<and> {''source_lang'', ''target_lang'', ''source_chunk'', ''translated_chunk''}
                 \<subseteq> set (prompt_placehodlers r)
            \<and> {''source_lang'', ''target_lang'', ''source_chunk'', ''translated_chunk'',
                ''reflection_chunk''} \<subseteq> set (prompt_placehodlers i)
           then PromptConfig_init t r i =
                  Inr \<lparr>translation_prompt = t, reflection_prompt = r, improvement_prompt = i\<rparr>
           else \<exists>msg. PromptConfig_init t r i = Inl (ValueError msg))"
proof -
  let ?T = "[''source_lang'', ''target_lang'', ''source_chunk'']"
  let ?R = "[''source_lang'', ''target_lang'', ''source_chunk'', ''translated_chunk'']"
  let ?I = "[''source_lang'', ''target_lang'', ''source_chunk'', ''translated_chunk'',
             ''reflection_chunk'']"
  let ?self = "\<lparr>translation_prompt = t, reflection_prompt = r, improvement_prompt = i\<rparr>"
  have unfold: "PromptConfig_init t r i =
      (case check_placeholders ''translation'' t ?T of Inl e \<Rightarrow> Inl e
       | Inr u \<Rightarrow> (case check_placeholders ''reflection'' r ?R of Inl e \<Rightarrow> Inl e
       | Inr u \<Rightarrow> (case check_placeholders ''improvement'' i ?I of Inl e \<Rightarrow> Inl e
       | Inr u \<Rightarrow> Inr ?self)))"
    by (simp add: PromptConfig_init_def REQUIRED_PROMPT_PLACEHOLDERS_def getattr_prompt_def
        split: sum.splits)
  have c: "(if set ?T \<subseteq> set (prompt_placehodlers t) \<and> set ?R \<subseteq> set (prompt_placehodlers r)
               \<and> set ?I \<subseteq> set (prompt_placehodlers i)
            then PromptConfig_init t r i = Inr ?self
            else \<exists>msg. PromptConfig_init t r i = Inl (ValueError msg))"
  proof (cases "set ?T \<subseteq> set (prompt_placehodlers t)")
    case False
    from check_placeholders_fail[OF this] show ?thesis using False unfold by auto
  next
    case T: True
    show ?thesis
    proof (cases "set ?R \<subseteq> set (prompt_placehodlers r)")
      case False
      from check_placeholders_fail[OF this] show ?thesis
        using False unfold check_placeholders_ok[OF T] by auto
    next
      case R: True
      show ?thesis
      proof (cases "set ?I \<subseteq> set (prompt_placehodlers i)")
        case False
        from check_placeholders_fail[OF this] show ?thesis
          using False unfold check_placeholders_ok[OF T] check_placeholders_ok[OF R] by auto
      next
        case True
        then show ?thesis
          using T R unfold check_placeholders_ok[OF T] check_placeholders_ok[OF R]
            check_placeholders_ok[OF True] by simp
      qed
    qed
  qed
  show ?thesis
    using c PromptTemplate_init_placeholders[OF assms(1)]
      PromptTemplate_init_placeholders[OF assms(2)]
      PromptTemplate_init_placeholders[OF assms(3)] by simp
qed

text \<open>
  The three example prompts make a configuration; with the translation prompt in the
  place of the improvement prompt the constructor raises.
\<close>

theorem PromptConfig_init_contract_witness:
  "PromptConfig_init ex_translation ex_reflection ex_improvement = Inr ex_prompts
   \<and> (\<exists>msg. PromptConfig_init ex_translation ex_reflection ex_translation = Inl (ValueError msg))"
proof -
  have "PromptConfig_init ex_translation ex_reflection ex_improvement = Inr ex_prompts"
    using PromptConfig_init_contract[OF ex_translation_init ex_reflection_init ex_improvement_init]
    by (simp add: prompt_placehodlers_def ex_prompts_def ex_translation_def ex_reflection_def
        ex_improvement_def)
  moreover have "\<exists>msg. PromptConfig_init ex_translation ex_reflection ex_translation
                         = Inl (ValueError msg)"
    using PromptConfig_init_contract[OF ex_translation_init ex_reflection_init ex_translation_init]
    by (simp add: prompt_placehodlers_def ex_translation_def ex_reflection_def)
  ultimately show ?thesis by simp
qed
subsection \<open>PromptTemplate: the constructor unpacks the keys\<close>






subsection \<open>PromptTemplate: rendering\<close>

text \<open>
  What \<^verbatim>\<open>get_integer\<close> computes: it raises when the digits the string starts with denote
  a number above \<^verbatim>\<open>PY_SSIZE_T_MAX\<close>; otherwise it reads a string of digits as that number
  and any other string as no integer.
\<close>

lemma foldl_digits_ge:
  "a \<le> foldl (\<lambda>a c. a * 10 + (of_char c - 48)) (a::nat) ds"
proof (induction ds arbitrary: a)
  case Nil
  show ?case by simp
next
  case (Cons c ds)
  have "a \<le> a * 10 + (of_char c - 48)" by simp
  also have "\<dots> \<le> foldl (\<lambda>a c. a * 10 + (of_char c - 48)) (a * 10 + (of_char c - 48)) ds"
    by (rule Cons.IH)
  finally show ?case by simp
qed

lemma scan_integer_char:
  "a \<le> PY_SSIZE_T_MAX \<Longrightarrow>
   scan_integer a s =
     (if PY_SSIZE_T_MAX < foldl (\<lambda>a c. a * 10 + (of_char c - 48)) a (takeWhile is_digit s)
      then Inl (ValueError ''Too many decimal digits in format string'')
      else if list_all is_digit s
      then Inr (Some (foldl (\<lambda>a c. a * 10 + (of_char c - 48)) a s))
      else Inr None)"
proof (induction s arbitrary: a)
  case Nil
  then show ?case by simp
next
  case (Cons c cs)
  show ?case
  proof (cases "is_digit c")
    case False
    with Cons.prems show ?thesis by simp
  next
    case True
    then have d: "of_char c - 48 \<le> (9::nat)"
      by (auto simp: is_digit_def)
    let ?a = "a * 10 + (of_char c - 48)"
    have over: "((PY_SSIZE_T_MAX - (of_char c - 48)) div 10 < a) = (PY_SSIZE_T_MAX < ?a)"
      using d by (simp add: PY_SSIZE_T_MAX_def) arith
    show ?thesis
    proof (cases "PY_SSIZE_T_MAX < ?a")
      case over_now: True
      have "?a \<le> foldl (\<lambda>a c. a * 10 + (of_char c - 48)) ?a (takeWhile is_digit cs)"
        by (rule foldl_digits_ge)
      with over_now
      have "PY_SSIZE_T_MAX < foldl (\<lambda>a c. a * 10 + (of_char c - 48)) ?a (takeWhile is_digit cs)"
        by linarith
      with True over over_now show ?thesis by simp
    next
      case False
      then have "?a \<le> PY_SSIZE_T_MAX" by simp
      from Cons.IH[OF this] True over False show ?thesis by simp
    qed
  qed
qed

lemma get_integer_char:
  "get_integer s =
     (if PY_SSIZE_T_MAX < decimal_value (takeWhile is_digit s)
      then Inl (ValueError ''Too many decimal digits in format string'')
      else if s \<noteq> [] \<and> list_all is_digit s then Inr (Some (decimal_value s))
      else Inr None)"
proof (cases "s = []")
  case True
  then show ?thesis by (simp add: get_integer_def decimal_value_def)
next
  case False
  then show ?thesis
    using scan_integer_char[of 0 s] by (simp add: get_integer_def decimal_value_def)
qed

lemma render_field_plain:
  assumes "plain_field (name, spec, conv)" and "map_of kwargs name = Some v"
  shows "render_field py expand kwargs (name, spec, conv) = Inr v"
proof -
  have f: "first_part name = name"
    using assms(1) by (auto simp: plain_field_def first_part_def takeWhile_eq_all_conv)
  have r: "rest_part name = []"
    using assms(1) by (auto simp: plain_field_def rest_part_def dropWhile_eq_Nil_conv)
  have g: "get_integer name = Inr None"
    using assms(1) by (simp add: plain_field_def get_integer_char)
  show ?thesis using assms f r g by (simp add: render_field_def plain_field_def)
qed

lemma field_names_Cons:
  "field_names ((lit, None) # items) = field_names items"
  "field_names ((lit, Some (name, spec, conv)) # items) = name # field_names items"
  by (simp_all add: field_names_def)

lemma output_markup_plain:
  assumes "plain_items items" and "set (field_names items) \<subseteq> set (dict_keys kwargs)"
  shows "output_markup py expand kwargs items None = Inr (substitute items kwargs)"
  using assms
proof (induction items)
  case Nil
  then show ?case by (simp add: substitute_def)
next
  case (Cons it items)
  obtain lit fld where it: "it = (lit, fld)" by (cases it)
  show ?case
  proof (cases fld)
    case None
    with Cons it show ?thesis
      by (simp add: plain_items_def substitute_def field_names_Cons)
  next
    case (Some f)
    obtain name spec conv where f: "f = (name, spec, conv)" by (cases f)
    from Cons.prems(2) it Some f have "name \<in> set (dict_keys kwargs)"
      by (simp add: field_names_Cons)
    then obtain v where v: "map_of kwargs name = Some v"
      by (auto simp: dict_keys_def dest: weak_map_of_SomeI)
    from Cons.prems(1) it Some f have pf: "plain_field (name, spec, conv)"
      by (simp add: plain_items_def)
    have rest: "output_markup py expand kwargs items None = Inr (substitute items kwargs)"
      using Cons it Some f by (simp add: plain_items_def field_names_Cons)
    show ?thesis
      using it Some f v rest render_field_plain[OF pf v]
      by (simp add: substitute_def)
  qed
qed

lemma formatter_parse_Inr: "formatter_parse s = Inr items \<Longrightarrow> markup_all s = (items, None)"
  by (auto simp: formatter_parse_def split: prod.splits option.splits)
text \<open>
  \<^bold>\<open>Claim C5\<close>, as the code has it. Let the template parse into \<open>items\<close>; its
  placeholders are the field names of the items. If a placeholder is not a key of the
  bindings, \<^verbatim>\<open>get_formatted\<close> raises the \<^verbatim>\<open>ValueError\<close> that lists every such placeholder and
  returns no string. If every placeholder is bound and every field is a plain keyword
  field (a name that is not empty, is not made of decimal digits only and does not start
  with digits denoting a number above \<^verbatim>\<open>sys.maxsize\<close>, with no attribute or index access,
  conversion or format spec), it returns the fully substituted string, with the warning
  about extra names when and only when the bindings hold a name the template does not
  use.
\<close>

theorem get_formatted_all_or_nothing:
  assumes "formatter_parse to_format = Inr items"
  shows "get_string_placeholders to_format = Inr (field_names items)
       \<and> (\<not> set (field_names items) \<subseteq> set (dict_keys kwargs) \<longrightarrow>
            get_formatted py to_format (Some kwargs) =
              ([], Inl (MissingParameters (set (field_names items) - set (dict_keys kwargs)))))
       \<and> (set (field_names items) \<subseteq> set (dict_keys kwargs) \<and> plain_items items \<longrightarrow>
            get_formatted py to_format (Some kwargs) =
              (if set (dict_keys kwargs) \<subseteq> set (field_names items) then []
               else [ExtraParameters (set (dict_keys kwargs) - set (field_names items))],
               Inr (substitute items kwargs)))"
proof -
  have p: "get_string_placeholders to_format = Inr (field_names items)"
    using assms by (simp add: get_string_placeholders_def)
  have m: "get_formatted py to_format (Some kwargs) =
             ([], Inl (MissingParameters (set (field_names items) - set (dict_keys kwargs))))"
    if "\<not> set (field_names items) \<subseteq> set (dict_keys kwargs)"
    using p that by (simp add: get_formatted_def placeholders_in_dict_def or_empty_def)
  have s: "get_formatted py to_format (Some kwargs) =
              (if set (dict_keys kwargs) \<subseteq> set (field_names items) then []
               else [ExtraParameters (set (dict_keys kwargs) - set (field_names items))],
               Inr (substitute items kwargs))"
    if sub: "set (field_names items) \<subseteq> set (dict_keys kwargs)" and pl: "plain_items items"
  proof -
    have "str_format py to_format kwargs = Inr (substitute items kwargs)"
      using formatter_parse_Inr[OF assms] output_markup_plain[OF pl sub]
      by (simp add: str_format_def numeral_2_eq_2)
    then show ?thesis
      using p sub by (simp add: get_formatted_def placeholders_in_dict_def or_empty_def)
  qed
  show ?thesis using p m s by blast
qed

text \<open>
  The template \<^verbatim>\<open>Hi {a}, {b}\<close>: with \<open>a\<close>, \<open>b\<close> and an extra \<open>c\<close> bound it renders with
  a warning; with only \<open>a\<close> bound it raises and names \<open>b\<close>.
\<close>

theorem get_formatted_all_or_nothing_witness:
  "get_formatted ex_py ''Hi {a}, {b}'' (Some [(''a'', ''x''), (''b'', ''y''), (''c'', ''z'')])
     = ([ExtraParameters {''c''}], Inr ''Hi x, y'')
   \<and> get_formatted ex_py ''Hi {a}, {b}'' (Some [(''a'', ''x'')])
     = ([], Inl (MissingParameters {''b''}))"
proof -
  have p: "formatter_parse ''Hi {a}, {b}''
             = Inr [(''Hi '', Some (''a'', [], None)), ('', '', Some (''b'', [], None))]"
    by (simp add: parse_defs)
  have "get_formatted ex_py ''Hi {a}, {b}'' (Some [(''a'', ''x''), (''b'', ''y''), (''c'', ''z'')])
          = ([ExtraParameters {''c''}], Inr ''Hi x, y'')"
    using get_formatted_all_or_nothing[OF p,
            of "[(''a'', ''x''), (''b'', ''y''), (''c'', ''z'')]" ex_py]
    by (simp add: field_names_def dict_keys_def plain_items_def plain_field_def is_digit_def
        decimal_value_def substitute_def insert_Diff_if)
  moreover have "get_formatted ex_py ''Hi {a}, {b}'' (Some [(''a'', ''x'')])
                   = ([], Inl (MissingParameters {''b''}))"
    using get_formatted_all_or_nothing[OF p, of "[(''a'', ''x'')]" ex_py]
    by (simp add: field_names_def dict_keys_def insert_Diff_if)
  ultimately show ?thesis by simp
qed

text \<open>
  The claim as stated, for every template string, fails on a numbered field. The
  template \<^verbatim>\<open>{0}\<close> has the placeholder \<^verbatim>\<open>0\<close>; the bindings hold \<^verbatim>\<open>0\<close> and an extra name, so
  the check passes with the warning. \<^verbatim>\<open>str.format\<close> then reads \<^verbatim>\<open>{0}\<close> as the first
  positional argument, of which there is none, and raises an \<^verbatim>\<open>IndexError\<close>: no string is
  returned although every placeholder is bound.
\<close>

theorem get_formatted_numbered_field_counterexample:
  "get_formatted ex_py ''{0}'' (Some [(''0'', ''x''), (''extra'', ''y'')])
     = ([ExtraParameters {''extra''}],
        Inl (IndexError ''Replacement index 0 out of range for positional args tuple''))"
  by (simp add: parse_defs format_defs template_defs insert_Diff_if)

text \<open>
  The bound on the leading digits of a name is needed: \<^verbatim>\<open>get_integer\<close> raises on the
  twenty nines before it reaches the letter, so the field \<^verbatim>\<open>{99999999999999999999a}\<close> is
  not rendered although its name is bound; with nineteen digits that denote
  \<^verbatim>\<open>sys.maxsize\<close> the name is a keyword.
\<close>

lemma get_formatted_too_many_digits:
  "get_formatted ex_py ''{99999999999999999999a}'' (Some [(''99999999999999999999a'', ''x'')])
     = ([], Inl (ValueError ''Too many decimal digits in format string''))"
  "get_formatted ex_py ''{9223372036854775807a}'' (Some [(''9223372036854775807a'', ''x'')])
     = ([], Inr ''x'')"
  by (simp_all add: parse_defs format_defs template_defs)

subsection \<open>The stage methods: what the loop and the sort compute\<close>

lemma submit_all_Inr:
  "(\<And>i. i \<in> set idxs \<Longrightarrow> job i = Inr (f i)) \<Longrightarrow>
     submit_all job idxs = Inr (map (\<lambda>i. (i, f i)) idxs)"
  by (induction idxs) auto

lemma submit_all_Inr_D:
  "submit_all job idxs = Inr fs \<Longrightarrow>
     fs = map (\<lambda>i. (i, projr (job i))) idxs \<and> (\<forall>i \<in> set idxs. job i = Inr (projr (job i)))"
  by (induction idxs arbitrary: fs) (auto split: sum.splits)

lemma submit_all_Inl:
  assumes "\<forall>i \<in> set pre. \<exists>f. job i = Inr f" and "job m = Inl e"
  shows "submit_all job (pre @ m # post) = Inl e"
  using assms
proof (induction pre)
  case Nil
  then show ?case by simp
next
  case (Cons a pre)
  then obtain f where "job a = Inr f" by auto
  with Cons show ?case by simp
qed

lemma map_of_futures:
  "i \<in> set idxs \<Longrightarrow> map_of (map (\<lambda>i. (i, f i)) idxs) i = Some (f i)"
  by (induction idxs) auto

lemma as_completed_loop_caught:
  "set order \<subseteq> set idxs \<Longrightarrow> \<forall>i \<in> set order. caught (f i) \<Longrightarrow>
     as_completed_loop (map (\<lambda>i. (i, f i)) idxs) order
       = (failures f order, Inr (successes f order))"
  by (induction order)
     (auto simp: failures_def successes_def map_of_futures caught_def split: sum.splits)

lemma as_completed_loop_raises:
  assumes "set (pre @ k # post) \<subseteq> set idxs" and "\<forall>i \<in> set pre. caught (f i)"
    and "f k = Inl e" and "\<not> is_Exception e"
  shows "as_completed_loop (map (\<lambda>i. (i, f i)) idxs) (pre @ k # post) = (failures f pre, Inl e)"
  using assms
  by (induction pre) (auto simp: failures_def map_of_futures caught_def split: sum.splits)

lemma mset_map_filter_cong:
  "mset xs = mset ys \<Longrightarrow> mset (List.map_filter g xs) = mset (List.map_filter g ys)"
  by (simp add: List.map_filter_def)

lemma successes_keys:
  assumes "\<And>i r. i \<in> set idxs \<Longrightarrow> f i = Inr r \<Longrightarrow> fst r = i"
  shows "map fst (successes f idxs) = filter (\<lambda>i. \<not> isl (f i)) idxs"
  using assms by (induction idxs) (auto simp: successes_def split: sum.splits)

lemma successes_inj:
  assumes "\<And>i r. i \<in> set idxs \<Longrightarrow> f i = Inr r \<Longrightarrow> fst r = i"
  shows "inj_on fst (set (successes f idxs))"
proof (rule inj_onI)
  fix x y assume x: "x \<in> set (successes f idxs)" and y: "y \<in> set (successes f idxs)"
    and e: "fst x = fst y"
  from x obtain i where i: "i \<in> set idxs" "f i = Inr x"
    by (auto simp: successes_def List.map_filter_def split: sum.splits)
  from y obtain j where j: "j \<in> set idxs" "f j = Inr y"
    by (auto simp: successes_def List.map_filter_def split: sum.splits)
  from assms[OF i] assms[OF j] e have "i = j" by simp
  with i j show "x = y" by simp
qed

lemma sort_successes:
  assumes keys: "\<And>i r. i < n \<Longrightarrow> f i = Inr r \<Longrightarrow> fst r = i"
    and perm: "mset order = mset [0..<n]"
  shows "sort_key fst (successes f order) = successes f [0..<n]"
proof (rule sort_key_inj_key_eq)
  show "mset (successes f order) = mset (successes f [0..<n])"
    unfolding successes_def by (rule mset_map_filter_cong[OF perm])
  have s: "set order = {0..<n}" using perm by (metis mset_eq_setD set_upt)
  show "inj_on fst (set (successes f order))"
    by (rule successes_inj) (use s keys in auto)
  have "map fst (successes f [0..<n]) = filter (\<lambda>i. \<not> isl (f i)) [0..<n]"
    by (rule successes_keys) (use keys in auto)
  then show "sorted (map fst (successes f [0..<n]))"
    by (simp add: sorted_wrt_filter)
qed

text \<open>
  A stage whose pool opens and whose units are all submitted: when the handler of the
  loop catches whatever the futures raise, the stage prints the failures in completion
  order and returns the results in index order; otherwise it raises the first exception,
  in completion order, that the handler does not catch.
\<close>

lemma run_stage_char:
  assumes pool: "ThreadPoolExecutor (max_workers self) = Inr ()"
    and buf: "priv_buffer self = Some b" "num_chunks b = Some n"
    and jobs: "\<And>i. i < n \<Longrightarrow> job i = Inr (f i)"
    and keys: "\<And>i r. i < n \<Longrightarrow> f i = Inr r \<Longrightarrow> fst r = i"
    and perm: "mset order = mset [0..<n]"
    and caught: "\<And>i. i < n \<Longrightarrow> caught (f i)"
  shows "run_stage self job order = (failures f order, Inr (map snd (successes f [0..<n])))"
proof -
  have s: "set order = {0..<n}" using perm by (metis mset_eq_setD set_upt)
  have sub: "submit_all job [0..<n] = Inr (map (\<lambda>i. (i, f i)) [0..<n])"
    by (rule submit_all_Inr) (use jobs in auto)
  have loop: "as_completed_loop (map (\<lambda>i. (i, f i)) [0..<n]) order
               = (failures f order, Inr (successes f order))"
    by (rule as_completed_loop_caught) (use s caught in auto)
  show ?thesis
    using pool buf sub loop sort_successes[OF keys perm]
    by (simp add: run_stage_def buffer_get_def)
qed

lemma run_stage_raises:
  assumes pool: "ThreadPoolExecutor (max_workers self) = Inr ()"
    and buf: "priv_buffer self = Some b" "num_chunks b = Some n"
    and jobs: "\<And>i. i < n \<Longrightarrow> job i = Inr (f i)"
    and perm: "mset order = mset [0..<n]"
    and k: "k < n" "\<not> caught (f k)"
  shows "\<exists>pre j post e. order = pre @ j # post \<and> (\<forall>i \<in> set pre. caught (f i))
           \<and> j < n \<and> f j = Inl e \<and> \<not> is_Exception e
           \<and> run_stage self job order = (failures f pre, Inl e)"
proof -
  have s: "set order = {0..<n}" using perm by (metis mset_eq_setD set_upt)
  then have "\<exists>i \<in> set order. \<not> caught (f i)" using k by auto
  from split_list_first_prop[OF this] obtain pre j post where
    o: "order = pre @ j # post" and j: "\<not> caught (f j)" and pre: "\<forall>i \<in> set pre. caught (f i)"
    by auto
  from j obtain e where e: "f j = Inl e" "\<not> is_Exception e"
    by (auto simp: caught_def split: sum.splits)
  have jn: "j < n" using o s by auto
  have sub: "submit_all job [0..<n] = Inr (map (\<lambda>i. (i, f i)) [0..<n])"
    by (rule submit_all_Inr) (use jobs in auto)
  have "set (pre @ j # post) \<subseteq> set [0..<n]" using o s by simp
  from as_completed_loop_raises[OF this pre e]
  have loop: "as_completed_loop (map (\<lambda>i. (i, f i)) [0..<n]) order = (failures f pre, Inl e)"
    using o by simp
  have "run_stage self job order = (failures f pre, Inl e)"
    using pool buf sub loop by (simp add: run_stage_def buffer_get_def)
  with o pre jn e show ?thesis by blast
qed

lemma filter_eq_singleton:
  "distinct xs \<Longrightarrow> k \<in> set xs \<Longrightarrow> filter (\<lambda>i. i = k) xs = [k]"
  by (induction xs) (auto simp: filter_empty_conv)

lemma failures_one:
  assumes "distinct order" and "k \<in> set order"
  shows "failures (\<lambda>i. if i = k then Inl e else Inr (i, c i)) order = [(k, e)]"
proof -
  have "failures (\<lambda>i. if i = k then Inl e else Inr (i, c i)) order
          = map (\<lambda>i. (i, e)) (filter (\<lambda>i. i = k) order)"
    by (induction order) (auto simp: failures_def)
  then show ?thesis using filter_eq_singleton[OF assms] by simp
qed

lemma failures_others:
  "k \<notin> set idxs \<Longrightarrow> failures (\<lambda>i. if i = k then Inl e else Inr (i, c i)) idxs = []"
  by (induction idxs) (auto simp: failures_def)

lemma successes_one:
  "successes (\<lambda>i. if i = k then Inl e else Inr (i, c i)) idxs
     = map (\<lambda>i. (i, c i)) (filter (\<lambda>i. i \<noteq> k) idxs)"
  by (induction idxs) (auto simp: successes_def)

lemma successes_all: "successes (\<lambda>i. Inr (i, c i)) idxs = map (\<lambda>i. (i, c i)) idxs"
  by (induction idxs) (auto simp: successes_def)

lemma failures_none: "failures (\<lambda>i. Inr (i, c i)) idxs = []"
  by (induction idxs) (auto simp: failures_def)

lemma length_filter_neq_upt: "k < n \<Longrightarrow> length (filter (\<lambda>i. i \<noteq> k) [0..<n]) = n - 1"
proof -
  assume k: "k < n"
  have "length (filter (\<lambda>i. i \<noteq> k) [0..<n]) + length (filter (\<lambda>i. \<not> i \<noteq> k) [0..<n]) = n"
    using sum_length_filter_compl[of "\<lambda>i. i \<noteq> k" "[0..<n]"] by simp
  moreover have "filter (\<lambda>i. \<not> i \<noteq> k) [0..<n] = [k]"
    using filter_eq_singleton[of "[0..<n]" k] k by simp
  ultimately show ?thesis by simp
qed

lemma run_stage_all_succeed:
  assumes "ThreadPoolExecutor (max_workers self) = Inr ()"
    and "priv_buffer self = Some b" "num_chunks b = Some n"
    and "mset order = mset [0..<n]"
    and "\<And>i. i < n \<Longrightarrow> job i = Inr (Inr (i, c i))"
  shows "run_stage self job order = ([], Inr (map c [0..<n]))"
proof -
  have "run_stage self job order
          = (failures (\<lambda>i. Inr (i, c i)) order, Inr (map snd (successes (\<lambda>i. Inr (i, c i)) [0..<n])))"
    by (rule run_stage_char[OF assms(1,2,3) _ _ assms(4)])
       (use assms(5) in \<open>auto simp: caught_def\<close>)
  then show ?thesis by (simp add: failures_none successes_all comp_def)
qed

lemma run_stage_one_failure:
  assumes pool: "ThreadPoolExecutor (max_workers self) = Inr ()"
    and buf: "priv_buffer self = Some b" "num_chunks b = Some n"
    and perm: "mset order = mset [0..<n]"
    and k: "k < n" "job k = Inr (Inl e)"
    and others: "\<And>i. i < n \<Longrightarrow> i \<noteq> k \<Longrightarrow> job i = Inr (Inr (i, c i))"
  shows "run_stage self job order =
           (if is_Exception e then ([(k, e)], Inr (map c (filter (\<lambda>i. i \<noteq> k) [0..<n])))
            else ([], Inl e))"
proof -
  let ?f = "\<lambda>i. if i = k then Inl e else Inr (i, c i)"
  have d: "distinct order" using perm by (metis distinct_upt mset_eq_imp_distinct_iff)
  have s: "k \<in> set order"
    using perm k(1) by (metis atLeastLessThan_iff mset_eq_setD set_upt zero_le)
  have jobs: "\<And>i. i < n \<Longrightarrow> job i = Inr (?f i)"
    using k others by auto
  show ?thesis
  proof (cases "is_Exception e")
    case True
    have "run_stage self job order = (failures ?f order, Inr (map snd (successes ?f [0..<n])))"
      by (rule run_stage_char[OF pool buf jobs _ perm])
         (use True in \<open>auto simp: caught_def split: if_splits\<close>)
    then show ?thesis
      using True by (simp add: failures_one[OF d s] successes_one comp_def)
  next
    case False
    then have "\<not> caught (?f k)" by (simp add: caught_def)
    from run_stage_raises[where f = ?f, OF pool buf jobs perm k(1) this]
    obtain pre j post e' where o: "order = pre @ j # post"
      and pre: "\<forall>i \<in> set pre. caught (?f i)"
      and j: "?f j = Inl e'" "\<not> is_Exception e'"
      and r: "run_stage self job order = (failures ?f pre, Inl e')"
      by blast
    from j have jk: "j = k" "e' = e" by (auto split: if_splits)
    have "k \<notin> set pre" using pre False by (auto simp: caught_def)
    with r jk False show ?thesis by (simp add: failures_others)
  qed
qed

text \<open>
  The completion order does not change what a stage returns. It can only change which
  exception a stage raises, when futures raise exceptions its handler does not catch.
\<close>

lemma run_stage_order:
  assumes keys: "\<forall>i fu r. job i = Inr fu \<longrightarrow> fu = Inr r \<longrightarrow> fst r = i"
    and buf: "priv_buffer self = Some b" "num_chunks b = Some n"
    and perm: "mset order = mset [0..<n]"
  shows "snd (run_stage self job order) = snd (run_stage self job [0..<n])
       \<or> (\<exists>i<n. \<exists>j<n. \<exists>e e'.
              job i = Inr (Inl e) \<and> \<not> is_Exception e
            \<and> job j = Inr (Inl e') \<and> \<not> is_Exception e'
            \<and> snd (run_stage self job order) = Inl e
            \<and> snd (run_stage self job [0..<n]) = Inl e')"
proof (cases "ThreadPoolExecutor (max_workers self)")
  case (Inl e)
  then show ?thesis by (simp add: run_stage_def)
next
  case (Inr u)
  show ?thesis
  proof (cases "submit_all job [0..<n]")
    case (Inl e)
    then show ?thesis using Inr buf by (simp add: run_stage_def buffer_get_def)
  next
    case (Inr fs)
    let ?f = "\<lambda>i. projr (job i)"
    from submit_all_Inr_D[OF Inr] have j: "\<And>i. i < n \<Longrightarrow> job i = Inr (?f i)" by simp
    have kf: "\<And>i r. i < n \<Longrightarrow> ?f i = Inr r \<Longrightarrow> fst r = i"
      using keys j by blast
    have pool: "ThreadPoolExecutor (max_workers self) = Inr ()"
      using \<open>ThreadPoolExecutor (max_workers self) = Inr u\<close> by simp
    show ?thesis
    proof (cases "\<forall>i<n. caught (?f i)")
      case True
      then have c: "\<And>i. i < n \<Longrightarrow> caught (?f i)" by simp
      have "run_stage self job order
              = (failures ?f order, Inr (map snd (successes ?f [0..<n])))"
        by (rule run_stage_char[OF pool buf j kf perm c])
      moreover have "run_stage self job [0..<n]
              = (failures ?f [0..<n], Inr (map snd (successes ?f [0..<n])))"
        by (rule run_stage_char[OF pool buf j kf refl c])
      ultimately show ?thesis by simp
    next
      case False
      then obtain k where k: "k < n" "\<not> caught (?f k)" by blast
      from run_stage_raises[where f = ?f, OF pool buf j perm k]
      obtain i1 e1 p1 where a: "i1 < n" "?f i1 = Inl e1" "\<not> is_Exception e1"
        "run_stage self job order = (p1, Inl e1)"
        by blast
      from run_stage_raises[where f = ?f, OF pool buf j refl k]
      obtain i2 e2 p2 where b: "i2 < n" "?f i2 = Inl e2" "\<not> is_Exception e2"
        "run_stage self job [0..<n] = (p2, Inl e2)"
        by blast
      from a(1,2) j have a': "job i1 = Inr (Inl e1)" by metis
      from b(1,2) j have b': "job i2 = Inr (Inl e2)" by metis
      from a a' b b' show ?thesis by auto
    qed
  qed
qed

lemma run_stage_submit_fails:
  assumes "ThreadPoolExecutor (max_workers self) = Inr ()"
    and "priv_buffer self = Some b" "num_chunks b = Some n"
    and m: "m < n" "\<And>i. i < m \<Longrightarrow> \<exists>f. job i = Inr f" "job m = Inl e"
  shows "run_stage self job order = ([], Inl e)"
proof -
  have "[0..<m + (n - m)] = [0..<m] @ [m..<m + (n - m)]"
    by (rule upt_add_eq_append) simp
  then have "[0..<n] = [0..<m] @ m # [Suc m..<n]"
    using m(1) by (simp add: upt_conv_Cons)
  then have "submit_all job [0..<n] = Inl e"
    using submit_all_Inl[of "[0..<m]" job m e "[Suc m..<n]"] m(2,3) by simp
  then show ?thesis using assms(1,2,3) by (simp add: run_stage_def buffer_get_def)
qed

lemma query_model_key: "query_model py self i t pk sk = Inr r \<Longrightarrow> fst r = i"
  by (auto simp: query_model_def split: sum.splits)

lemma query_model_llm:
  assumes "snd (get_formatted_prompt py t (or_empty pk)) = Inr p"
    and "snd (get_formatted_sysmsg py t (or_empty sk)) = Inr s"
  shows "query_model py self i t pk sk =
           (case llm self p s of Inl e \<Rightarrow> Inl e | Inr completion \<Rightarrow> Inr (i, completion))"
  using assms by (simp add: query_model_def)

lemma translate_job_key: "translate_job py self i = Inr fu \<Longrightarrow> fu = Inr r \<Longrightarrow> fst r = i"
  by (auto simp: translate_job_def split: sum.splits dest: query_model_key)

lemma reflect_job_key: "reflect_job py self i = Inr fu \<Longrightarrow> fu = Inr r \<Longrightarrow> fst r = i"
  by (auto simp: reflect_job_def split: sum.splits dest: query_model_key)

lemma improve_job_key: "improve_job py self i = Inr fu \<Longrightarrow> fu = Inr r \<Longrightarrow> fst r = i"
  by (auto simp: improve_job_def split: sum.splits dest: query_model_key)
subsection \<open>The example agent, job by job\<close>

lemma ex_buffer_facts:
  "priv_buffer (set_buffer a ex_buffer) = Some ex_buffer"
  "num_chunks ex_buffer = Some 2"
  "source_chunks ex_buffer = Some [''Hello, '', ''world.'']"
  by (simp_all add: set_buffer_def ex_buffer_def)

lemma ex_pool:
  "ThreadPoolExecutor (max_workers (set_buffer ex_agent b)) = Inr ()"
  "ThreadPoolExecutor (max_workers (set_buffer ex_agent_down b)) = Inr ()"
  by (simp_all add: ThreadPoolExecutor_def set_buffer_def ex_agent_def ex_agent_down_def)

lemma ex_perm: "mset [1, 0] = mset [0..<(2::nat)]"
  by (simp add: upt_rec)

lemma ex_translate_jobs:
  "translate_job ex_py (set_buffer ex_agent ex_buffer) 0 = Inr (Inr (0, ''Salut, ''))"
  "translate_job ex_py (set_buffer ex_agent ex_buffer) (Suc 0) = Inr (Inr (Suc 0, ''monde''))"
  by (simp_all add: job_defs ex_defs parse_defs format_defs template_defs)

lemma ex_translate_jobs_down:
  "translate_job ex_py (set_buffer ex_agent_down ex_buffer) 0 = Inr (Inl (OtherError ''timeout''))"
  "translate_job ex_py (set_buffer ex_agent_down ex_buffer) (Suc 0) = Inr (Inr (Suc 0, ''monde''))"
  by (simp_all add: job_defs ex_defs parse_defs format_defs template_defs)

text \<open>
  Two whole runs, for either value of \<^verbatim>\<open>clear_buffer\<close>: one with the model answering
  every prompt, one with the model down for the translation of the first chunk.
\<close>

lemmas run_defs = agentic_translate_def translate_def reflect_def improve_def run_stage_def
  ThreadPoolExecutor_def is_Exception_def upt_rec

lemma ex_run:
  "agentic_translate ex_py ex_agent ''Hello, world.'' cb [1, 0] [0, 1] [1, 0]
     = ([], [], Inr ''Bonjour, monde.'',
        if cb then ex_agent
        else set_buffer ex_agent
               (ex_buffer\<lparr>translated_chunks := Some [''Salut, '', ''monde''],
                           reflection_chunks := Some [''formal'', ''dot''],
                           improved_chunks := Some [''Bonjour, '', ''monde.'']\<rparr>))"
  by (simp add: run_defs job_defs ex_defs parse_defs format_defs template_defs)

lemma ex_run_down:
  "agentic_translate ex_py ex_agent_down ''Hello, world.'' cb [1, 0] [0, 1] [0, 1]
     = ([], [(0, OtherError ''timeout'')], Inl (IndexError ''list index out of range''),
        set_buffer ex_agent_down (ex_buffer\<lparr>translated_chunks := Some [''monde'']\<rparr>))"
  by (simp add: run_defs job_defs ex_defs parse_defs format_defs template_defs)

subsection \<open>The stage methods: order, isolation, dependency\<close>

lemma ex_pool_exit:
  "ThreadPoolExecutor (max_workers (set_buffer ex_agent_exit b)) = Inr ()"
  by (simp add: ThreadPoolExecutor_def set_buffer_def ex_agent_def ex_agent_exit_def)

lemma ex_translate_jobs_exit:
  "translate_job ex_py (set_buffer ex_agent_exit ex_buffer) 0
     = Inr (Inl (BaseException ''SystemExit''))"
  "translate_job ex_py (set_buffer ex_agent_exit ex_buffer) (Suc 0)
     = Inr (Inr (Suc 0, ''monde''))"
  by (simp_all add: job_defs ex_defs parse_defs format_defs template_defs)

text \<open>
  When the completion calls of two units raise exceptions that the handler of the loop
  does not catch, the stage raises the one of the unit that completes first: which
  exception leaves the stage depends on the completion order.
\<close>

lemma stage_exception_depends_on_order:
  "snd (translate ex_py (set_buffer ex_agent_exits ex_buffer) [1, 0])
     = Inl (BaseException ''CancelledError'')"
  "snd (translate ex_py (set_buffer ex_agent_exits ex_buffer) [0..<2])
     = Inl (BaseException ''SystemExit'')"
  by (simp_all add: run_defs job_defs ex_defs parse_defs format_defs template_defs)

text \<open>
  \<^bold>\<open>Claim C1.\<close> Let the buffer hold \<open>n\<close> chunks and let \<open>order\<close> be any completion order of
  the pool, a permutation of the indices below \<open>n\<close>. Each of \<^verbatim>\<open>translate\<close>, \<^verbatim>\<open>reflect\<close> and
  \<^verbatim>\<open>improve\<close> returns what it returns when the units complete one by one in index order:
  the same list when it returns one, the same exception when it raises one, but for one
  case, in which it returns no list under either order: units whose futures raised
  exceptions that are not instances of \<^verbatim>\<open>Exception\<close>, of which the stage raises one under
  each order. When the pool opens and every unit \<open>i\<close> produces a completion, the returned
  list holds at position \<open>i\<close> the completion produced for chunk index \<open>i\<close>.
\<close>

theorem stage_output_is_in_index_order:
  assumes "priv_buffer self = Some b" and "num_chunks b = Some n"
    and "mset order = mset [0..<n]"
  shows "(snd (translate py self order) = snd (translate py self [0..<n])
          \<or> (\<exists>i<n. \<exists>j<n. \<exists>e e'.
                 translate_job py self i = Inr (Inl e) \<and> \<not> is_Exception e
               \<and> translate_job py self j = Inr (Inl e') \<and> \<not> is_Exception e'
               \<and> snd (translate py self order) = Inl e
               \<and> snd (translate py self [0..<n]) = Inl e'))
       \<and> (snd (reflect py self order) = snd (reflect py self [0..<n])
          \<or> (\<exists>i<n. \<exists>j<n. \<exists>e e'.
                 reflect_job py self i = Inr (Inl e) \<and> \<not> is_Exception e
               \<and> reflect_job py self j = Inr (Inl e') \<and> \<not> is_Exception e'
               \<and> snd (reflect py self order) = Inl e
               \<and> snd (reflect py self [0..<n]) = Inl e'))
       \<and> (snd (improve py self order) = snd (improve py self [0..<n])
          \<or> (\<exists>i<n. \<exists>j<n. \<exists>e e'.
                 improve_job py self i = Inr (Inl e) \<and> \<not> is_Exception e
               \<and> improve_job py self j = Inr (Inl e') \<and> \<not> is_Exception e'
               \<and> snd (improve py self order) = Inl e
               \<and> snd (improve py self [0..<n]) = Inl e'))
       \<and> (ThreadPoolExecutor (max_workers self) = Inr () \<longrightarrow>
            ((\<forall>i<n. translate_job py self i = Inr (Inr (i, ct i)))
               \<longrightarrow> translate py self order = ([], Inr (map ct [0..<n])))
          \<and> ((\<forall>i<n. reflect_job py self i = Inr (Inr (i, cr i)))
               \<longrightarrow> reflect py self order = ([], Inr (map cr [0..<n])))
          \<and> ((\<forall>i<n. improve_job py self i = Inr (Inr (i, ci i)))
               \<longrightarrow> improve py self order = ([], Inr (map ci [0..<n]))))"
proof -
  have tk: "\<forall>i fu r. translate_job py self i = Inr fu \<longrightarrow> fu = Inr r \<longrightarrow> fst r = i"
    by (blast dest: translate_job_key)
  have rk: "\<forall>i fu r. reflect_job py self i = Inr fu \<longrightarrow> fu = Inr r \<longrightarrow> fst r = i"
    by (blast dest: reflect_job_key)
  have ik: "\<forall>i fu r. improve_job py self i = Inr fu \<longrightarrow> fu = Inr r \<longrightarrow> fst r = i"
    by (blast dest: improve_job_key)
  note t = run_stage_order[where job = "translate_job py self", OF tk assms]
  note r = run_stage_order[where job = "reflect_job py self", OF rk assms]
  note i = run_stage_order[where job = "improve_job py self", OF ik assms]
  have "translate py self order = ([], Inr (map ct [0..<n]))"
    if "ThreadPoolExecutor (max_workers self) = Inr ()"
      and "\<forall>i<n. translate_job py self i = Inr (Inr (i, ct i))"
    unfolding translate_def
    by (rule run_stage_all_succeed[OF that(1) assms]) (use that(2) in simp)
  moreover have "reflect py self order = ([], Inr (map cr [0..<n]))"
    if "ThreadPoolExecutor (max_workers self) = Inr ()"
      and "\<forall>i<n. reflect_job py self i = Inr (Inr (i, cr i))"
    unfolding reflect_def
    by (rule run_stage_all_succeed[OF that(1) assms]) (use that(2) in simp)
  moreover have "improve py self order = ([], Inr (map ci [0..<n]))"
    if "ThreadPoolExecutor (max_workers self) = Inr ()"
      and "\<forall>i<n. improve_job py self i = Inr (Inr (i, ci i))"
    unfolding improve_def
    by (rule run_stage_all_succeed[OF that(1) assms]) (use that(2) in simp)
  ultimately show ?thesis
    using t r i unfolding translate_def reflect_def improve_def by blast
qed

text \<open>
  The example agent with its two chunks, the second unit completing first: the
  translations come back in index order.
\<close>

theorem stage_output_is_in_index_order_witness:
  "snd (translate ex_py (set_buffer ex_agent ex_buffer) [1, 0])
     = snd (translate ex_py (set_buffer ex_agent ex_buffer) [0..<2])
   \<and> translate ex_py (set_buffer ex_agent ex_buffer) [1, 0] = ([], Inr [''Salut, '', ''monde''])"
proof -
  have jobs: "\<forall>i<2. translate_job ex_py (set_buffer ex_agent ex_buffer) i
                = Inr (Inr (i, [''Salut, '', ''monde''] ! i))"
    using ex_translate_jobs by (simp add: numeral_2_eq_2 less_Suc_eq)
  have m: "map (\<lambda>i. [''Salut, '', ''monde''] ! i) [0..<2] = [''Salut, '', ''monde'']"
    by (simp add: upt_rec)
  note th = stage_output_is_in_index_order[where self = "set_buffer ex_agent ex_buffer"
            and py = ex_py and ct = "\<lambda>i. [''Salut, '', ''monde''] ! i"
            and cr = "\<lambda>i. []" and ci = "\<lambda>i. []",
            OF ex_buffer_facts(1,2) ex_perm]
  from th have "snd (translate ex_py (set_buffer ex_agent ex_buffer) [1, 0])
                  = snd (translate ex_py (set_buffer ex_agent ex_buffer) [0..<2])
              \<or> (\<exists>i<2. \<exists>e. translate_job ex_py (set_buffer ex_agent ex_buffer) i = Inr (Inl e))"
    by blast
  with jobs have a: "snd (translate ex_py (set_buffer ex_agent ex_buffer) [1, 0])
                       = snd (translate ex_py (set_buffer ex_agent ex_buffer) [0..<2])"
    by auto
  from th ex_pool(1) jobs
  have "translate ex_py (set_buffer ex_agent ex_buffer) [1, 0]
          = ([], Inr (map (\<lambda>i. [''Salut, '', ''monde''] ! i) [0..<2]))"
    by blast
  then have b: "translate ex_py (set_buffer ex_agent ex_buffer) [1, 0]
                  = ([], Inr [''Salut, '', ''monde''])"
    using m by simp
  show ?thesis by (rule conjI[OF a b])
qed

text \<open>
  \<^bold>\<open>Claim C3\<close>, as the code has it. Let the pool open on a buffer of \<open>n\<close> chunks, let
  \<open>order\<close> be any completion order, and let the future of unit \<open>k\<close> raise \<open>e\<close> while every
  other unit \<open>i\<close> returns its completion \<open>c i\<close>. If \<open>e\<close> is an instance of \<^verbatim>\<open>Exception\<close>, the
  stage method returns without raising: its output is the \<open>n - 1\<close> completions of the
  other units in index order, and the one line it prints reports index \<open>k\<close> with \<open>e\<close>. If
  \<open>e\<close> is not an instance of \<^verbatim>\<open>Exception\<close>, the stage method raises \<open>e\<close>: it returns no
  output and prints no line. This holds for \<^verbatim>\<open>translate\<close>, \<^verbatim>\<open>reflect\<close> and \<^verbatim>\<open>improve\<close>. An
  exception of \<^verbatim>\<open>get_completion\<close> is such a raise of the future: once the two renderings
  succeed, \<^verbatim>\<open>query_model\<close> raises what the model raises.
\<close>

theorem one_failed_unit_is_isolated:
  assumes "ThreadPoolExecutor (max_workers self) = Inr ()"
    and "priv_buffer self = Some b" and "num_chunks b = Some n"
    and "mset order = mset [0..<n]" and "k < n"
  shows "(translate_job py self k = Inr (Inl e)
            \<and> (\<forall>i<n. i \<noteq> k \<longrightarrow> translate_job py self i = Inr (Inr (i, c i)))
          \<longrightarrow> translate py self order =
                (if is_Exception e
                 then ([(k, e)], Inr (map c (filter (\<lambda>i. i \<noteq> k) [0..<n])))
                 else ([], Inl e)))
       \<and> (reflect_job py self k = Inr (Inl e)
            \<and> (\<forall>i<n. i \<noteq> k \<longrightarrow> reflect_job py self i = Inr (Inr (i, c i)))
          \<longrightarrow> reflect py self order =
                (if is_Exception e
                 then ([(k, e)], Inr (map c (filter (\<lambda>i. i \<noteq> k) [0..<n])))
                 else ([], Inl e)))
       \<and> (improve_job py self k = Inr (Inl e)
            \<and> (\<forall>i<n. i \<noteq> k \<longrightarrow> improve_job py self i = Inr (Inr (i, c i)))
          \<longrightarrow> improve py self order =
                (if is_Exception e
                 then ([(k, e)], Inr (map c (filter (\<lambda>i. i \<noteq> k) [0..<n])))
                 else ([], Inl e)))
       \<and> length (map c (filter (\<lambda>i. i \<noteq> k) [0..<n])) = n - 1"
proof -
  have "run_stage self job order =
          (if is_Exception e then ([(k, e)], Inr (map c (filter (\<lambda>i. i \<noteq> k) [0..<n])))
           else ([], Inl e))"
    if "job k = Inr (Inl e)" and "\<forall>i<n. i \<noteq> k \<longrightarrow> job i = Inr (Inr (i, c i))" for job
    by (rule run_stage_one_failure[where job = job, OF assms that(1)]) (use that(2) in simp)
  then show ?thesis
    using length_filter_neq_upt[OF assms(5)] by (simp add: translate_def reflect_def improve_def)
qed

text \<open>
  The model that is down for the first chunk, its exception an instance of
  \<^verbatim>\<open>Exception\<close>: \<^verbatim>\<open>translate\<close> returns the translation of the second chunk and prints the
  failure of index 0.
\<close>

theorem one_failed_unit_is_isolated_witness:
  "translate ex_py (set_buffer ex_agent_down ex_buffer) [1, 0]
     = ([(0, OtherError ''timeout'')], Inr [''monde''])"
proof -
  have others: "\<forall>i<2. i \<noteq> 0 \<longrightarrow> translate_job ex_py (set_buffer ex_agent_down ex_buffer) i
                  = Inr (Inr (i, ''monde''))"
    using ex_translate_jobs_down(2) by (simp add: numeral_2_eq_2 less_Suc_eq)
  have f: "map (\<lambda>i. ''monde'') (filter (\<lambda>i. i \<noteq> 0) [0..<(2::nat)]) = [''monde'']"
    by (simp add: upt_rec)
  have k: "(0::nat) < 2" by simp
  show ?thesis
    using one_failed_unit_is_isolated[where self = "set_buffer ex_agent_down ex_buffer"
            and py = ex_py and e = "OtherError ''timeout''" and c = "\<lambda>i. ''monde''",
            OF ex_pool(2) ex_buffer_facts(1,2) ex_perm k]
      ex_translate_jobs_down(1) others f
    by (simp add: is_Exception_def)
qed

text \<open>
  The claim as stated, for whatever the completion call raises, fails on an exception
  that is not an instance of \<^verbatim>\<open>Exception\<close>. The completion call for the first of two
  chunks raises \<^verbatim>\<open>SystemExit\<close> and the one for the second chunk returns. The future of the
  first unit holds the exception, \<^verbatim>\<open>future.result()\<close> raises it in the loop, and the handler
  \<^verbatim>\<open>except Exception\<close> does not catch it: \<^verbatim>\<open>translate\<close> raises \<^verbatim>\<open>SystemExit\<close> for the whole
  batch, returns no result and reports no index.
\<close>

theorem uncaught_exception_aborts_stage_counterexample:
  "translate_job ex_py (set_buffer ex_agent_exit ex_buffer) 0
     = Inr (Inl (BaseException ''SystemExit''))
   \<and> translate_job ex_py (set_buffer ex_agent_exit ex_buffer) 1 = Inr (Inr (1, ''monde''))
   \<and> translate ex_py (set_buffer ex_agent_exit ex_buffer) [1, 0]
     = ([], Inl (BaseException ''SystemExit''))"
  by (simp add: run_defs job_defs ex_defs parse_defs format_defs template_defs)

lemma get_tagged_source_text_ok:
  assumes "priv_buffer self = Some b" and "source_chunks b = Some chunks" and "i < length chunks"
  shows "\<exists>d. get_tagged_source_text self (int i) = Inr d"
proof -
  have "truthy (priv_buffer self)" using assms(1,2) by (auto simp: truthy_def empty_buffer_def)
  then show ?thesis using assms
    by (simp add: get_tagged_source_text_def buffer_def py_index_def)
qed

lemma py_index_nat:
  "py_index xs (int i) =
     (if i < length xs then Inr (xs ! i) else Inl (IndexError ''list index out of range''))"
  by (simp add: py_index_def)

text \<open>
  \<^bold>\<open>Claim C2\<close>, as the code has it. Let the pool open on a buffer of \<open>n\<close> source chunks
  whose \<^verbatim>\<open>translated_chunks\<close> is the list \<open>translated\<close>. If \<open>translated\<close> has fewer than \<open>n\<close>
  elements, \<^verbatim>\<open>reflect\<close> raises \<^verbatim>\<open>IndexError: list index out of range\<close> and returns no output.
  If \<open>translated\<close> or the list of reflections has fewer than \<open>n\<close> elements, \<^verbatim>\<open>improve\<close>
  raises the same error. The error is the one of the list access
  \<^verbatim>\<open>self._buffer["translated_chunks"][idx]\<close> in the main thread; it carries no unit index.
\<close>

theorem partial_prior_stage_raises_IndexError:
  assumes "ThreadPoolExecutor (max_workers self) = Inr ()"
    and "priv_buffer self = Some b" and "num_chunks b = Some n"
    and "source_chunks b = Some chunks" and "length chunks = n"
    and "translated_chunks b = Some translated"
  shows "(length translated < n \<longrightarrow>
            reflect py self order = ([], Inl (IndexError ''list index out of range'')))
       \<and> (reflection_chunks b = Some reflection
            \<and> (length translated < n \<or> length reflection < n) \<longrightarrow>
            improve py self order = ([], Inl (IndexError ''list index out of range'')))"
proof -
  have tagged: "\<exists>d. get_tagged_source_text self (int i) = Inr d" if "i < n" for i
    using get_tagged_source_text_ok[OF assms(2,4)] that assms(5) by simp
  have r: "reflect py self order = ([], Inl (IndexError ''list index out of range''))"
    if "length translated < n"
    unfolding reflect_def
  proof (rule run_stage_submit_fails[OF assms(1,2,3) that])
    show "\<exists>f. reflect_job py self i = Inr f" if "i < length translated" for i
    proof -
      from tagged[of i] that \<open>length translated < n\<close> obtain d where
        "get_tagged_source_text self (int i) = Inr d" by auto
      then show ?thesis using that assms(2,6)
        by (simp add: reflect_job_def buffer_get_def py_index_nat)
    qed
    show "reflect_job py self (length translated) = Inl (IndexError ''list index out of range'')"
      using assms(2,6) by (simp add: reflect_job_def buffer_get_def py_index_nat)
  qed
  have i: "improve py self order = ([], Inl (IndexError ''list index out of range''))"
    if rc: "reflection_chunks b = Some reflection"
      and short: "length translated < n \<or> length reflection < n"
    unfolding improve_def
  proof (rule run_stage_submit_fails[OF assms(1,2,3)])
    let ?m = "min (length translated) (length reflection)"
    show "?m < n" using short by auto
    show "\<exists>f. improve_job py self i = Inr f" if "i < ?m" for i
    proof -
      from tagged[of i] that short obtain d where
        "get_tagged_source_text self (int i) = Inr d" by auto
      then show ?thesis using that assms(2,6) rc
        by (simp add: improve_job_def buffer_get_def py_index_nat)
    qed
    show "improve_job py self ?m = Inl (IndexError ''list index out of range'')"
      using assms(2,6) rc by (simp add: improve_job_def buffer_get_def py_index_nat min_def)
  qed
  show ?thesis using r i by blast
qed

text \<open>
  The buffer after a translation stage that lost the first of two units: it holds one
  translation, and \<^verbatim>\<open>reflect\<close> raises.
\<close>

theorem partial_prior_stage_raises_IndexError_witness:
  "reflect ex_py (set_buffer ex_agent_down (ex_buffer\<lparr>translated_chunks := Some [''monde'']\<rparr>))
     [0, 1] = ([], Inl (IndexError ''list index out of range''))"
proof -
  let ?b = "ex_buffer\<lparr>translated_chunks := Some [''monde'']\<rparr>"
  have h: "priv_buffer (set_buffer ex_agent_down ?b) = Some ?b" "num_chunks ?b = Some 2"
    "source_chunks ?b = Some [''Hello, '', ''world.'']" "length [''Hello, '', ''world.''] = 2"
    "translated_chunks ?b = Some [''monde'']"
    by (simp_all add: set_buffer_def ex_buffer_def)
  show ?thesis
    using partial_prior_stage_raises_IndexError[where py = ex_py and order = "[0, 1]"
            and reflection = "[]", OF ex_pool(2) h]
    by simp
qed

text \<open>
  The claim as stated fails on a whole run. The model is down for the translation of the
  first chunk, so \<^verbatim>\<open>translate\<close> prints the failure of index 0 and returns one translation
  for two chunks. \<^verbatim>\<open>agentic_translate\<close> goes on to \<^verbatim>\<open>reflect\<close>, which raises \<^verbatim>\<open>IndexError: list
  index out of range\<close>: not a dependency error, and without the missing index 0. The
  buffer it leaves holds the one translation, that of chunk 1, at position 0.
\<close>

theorem partial_translation_counterexample:
  "agentic_translate ex_py ex_agent_down ''Hello, world.'' True [1, 0] [0, 1] [0, 1]
     = ([], [(0, OtherError ''timeout'')], Inl (IndexError ''list index out of range''),
        set_buffer ex_agent_down (ex_buffer\<lparr>translated_chunks := Some [''monde'']\<rparr>))"
  by (rule ex_run_down)

subsection \<open>Tagging a chunk in the source text\<close>

lemma concat_list_update:
  "i < length xs \<Longrightarrow> concat (xs[i := y]) = concat (take i xs) @ y @ concat (drop (Suc i) xs)"
  by (simp add: upd_conv_take_nth_drop)

lemma concat_split_at:
  "i < length xs \<Longrightarrow> concat (take i xs) @ xs ! i @ concat (drop (Suc i) xs) = concat xs"
  by (metis concat_list_update list_update_id)

text \<open>
  \<^bold>\<open>Claim C10.\<close> Let the buffer hold a non-empty list of source chunks and let
  \<open>0 \<le> chunk_idx < len(chunks)\<close>. \<^verbatim>\<open>get_tagged_source_text\<close> returns the dictionary whose
  \<^verbatim>\<open>source_chunk\<close> is the chunk at \<open>chunk_idx\<close> and whose \<^verbatim>\<open>source_tagged\<close> is the chunks
  before it, then \<^verbatim>\<open><TAG>\<close>, the chunk and \<^verbatim>\<open></TAG>\<close>, then the chunks after it, all
  concatenated, \<^verbatim>\<open>TAG\<close> being the agent's \<^verbatim>\<open>source_text_tag\<close>. Without the two tags that string
  is the concatenation of all source chunks.
\<close>

theorem get_tagged_source_text_spec:
  assumes "priv_buffer self = Some b" and "source_chunks b = Some chunks"
    and "chunks \<noteq> []" and "0 \<le> chunk_idx" and "chunk_idx < int (length chunks)"
  shows "get_tagged_source_text self chunk_idx =
           Inr [(''source_chunk'', chunks ! nat chunk_idx),
                (''source_tagged'',
                   concat (take (nat chunk_idx) chunks)
                   @ (''<'' @ py_str (source_text_tag self) @ ''>'' @ chunks ! nat chunk_idx
                      @ ''</'' @ py_str (source_text_tag self) @ ''>'')
                   @ concat (drop (Suc (nat chunk_idx)) chunks))]
         \<and> concat (take (nat chunk_idx) chunks) @ chunks ! nat chunk_idx
             @ concat (drop (Suc (nat chunk_idx)) chunks) = concat chunks"
proof -
  have t: "truthy (priv_buffer self)"
    using assms(1,2) by (auto simp: truthy_def empty_buffer_def)
  have i: "py_index chunks chunk_idx = Inr (chunks ! nat chunk_idx)"
    using assms(4,5) by (simp add: py_index_def)
  have s1: "slice_to chunks chunk_idx = take (nat chunk_idx) chunks"
    using assms(4) by (simp add: slice_to_def)
  have s2: "slice_from chunks (chunk_idx + 1) = drop (Suc (nat chunk_idx)) chunks"
    using assms(4) by (simp add: slice_from_def nat_add_distrib)
  have n: "nat chunk_idx < length chunks" using assms(4,5) by simp
  show ?thesis
    using t i s1 s2 assms(1,2) concat_split_at[OF n]
    by (simp add: get_tagged_source_text_def buffer_def tag_chunk_def)
qed

text \<open>The second chunk of the example, tagged with \<^verbatim>\<open>T\<close>.\<close>

theorem get_tagged_source_text_spec_witness:
  "get_tagged_source_text (set_buffer ex_agent ex_buffer) 1
     = Inr [(''source_chunk'', ''world.''), (''source_tagged'', ''Hello, <T>world.</T>'')]
   \<and> ''Hello, '' @ ''world.'' = concat [''Hello, '', ''world.'']"
proof -
  have h: "[''Hello, '', ''world.''] \<noteq> []" "(0::int) \<le> 1"
    "(1::int) < int (length [''Hello, '', ''world.''])"
    by simp_all
  show ?thesis
    using get_tagged_source_text_spec[OF ex_buffer_facts(1,3) h, of ex_agent]
    by (simp add: set_buffer_def ex_agent_def py_str_def)
qed
subsection \<open>agentic_translate: the result and the buffer\<close>

text \<open>
  \<^bold>\<open>Claim C6.\<close> When \<^verbatim>\<open>agentic_translate\<close> returns, the string it returns is the
  concatenation, with nothing added between the elements, of the list the improvement
  stage returned for this run: the list \<^verbatim>\<open>improve\<close> computes on the buffer that holds the
  chunks of the source text and the outputs of the two earlier stages, which is in
  chunk-index order.
\<close>

theorem agentic_translate_returns_concatenation:
  assumes "agentic_translate py self source_text clear_buffer ord_t ord_r ord_i
             = (ws, printed, Inr final, self')"
  shows "\<exists>chunks translated reflection improved p3.
           text_splitter self source_text = Inr chunks
         \<and> improve py
             (set_buffer self
                \<lparr>source_chunks = Some chunks, num_chunks = Some (length chunks),
                 translated_chunks = Some translated, reflection_chunks = Some reflection,
                 improved_chunks = None\<rparr>) ord_i = (p3, Inr improved)
         \<and> final = concat improved"
  using assms
  by (auto simp: agentic_translate_def Let_def empty_buffer_def split: sum.splits prod.splits)

text \<open>
  The run of the example agent returns \<^verbatim>\<open>Bonjour, monde.\<close>, the concatenation of the
  improved chunks \<^verbatim>\<open>Bonjour, \<close> and \<^verbatim>\<open>monde.\<close>
\<close>

theorem agentic_translate_returns_concatenation_witness:
  "agentic_translate ex_py ex_agent ''Hello, world.'' True [1, 0] [0, 1] [1, 0]
     = ([], [], Inr ''Bonjour, monde.'', ex_agent)
   \<and> (\<exists>chunks translated reflection improved p3.
           text_splitter ex_agent ''Hello, world.'' = Inr chunks
         \<and> improve ex_py
             (set_buffer ex_agent
                \<lparr>source_chunks = Some chunks, num_chunks = Some (length chunks),
                 translated_chunks = Some translated, reflection_chunks = Some reflection,
                 improved_chunks = None\<rparr>) [1, 0] = (p3, Inr improved)
         \<and> ''Bonjour, monde.'' = concat improved)
   \<and> concat [''Bonjour, '', ''monde.''] = ''Bonjour, monde.''"
proof -
  have r: "agentic_translate ex_py ex_agent ''Hello, world.'' True [1, 0] [0, 1] [1, 0]
             = ([], [], Inr ''Bonjour, monde.'', ex_agent)"
    using ex_run[of True] by simp
  from agentic_translate_returns_concatenation[OF r] r show ?thesis by simp
qed

text \<open>
  \<^bold>\<open>Claim C8\<close>, as the code has it. After \<^verbatim>\<open>agentic_translate\<close> returns: with
  \<^verbatim>\<open>clear_buffer\<close> true, the default, the property \<^verbatim>\<open>buffer\<close> is the empty dict; with
  \<^verbatim>\<open>clear_buffer\<close> false it holds the source chunks, their number, and the lists the three
  stages returned in this run, the returned string being the concatenation of the last.
  After a call that raises \<open>e\<close>, one of four: the splitter raised \<open>e\<close> and the buffer is
  the empty dict; \<^verbatim>\<open>translate\<close> raised \<open>e\<close> and the buffer holds the source chunks and
  their number only; \<^verbatim>\<open>translate\<close> returned, \<^verbatim>\<open>reflect\<close> raised \<open>e\<close> and the buffer holds,
  besides, the list \<^verbatim>\<open>translate\<close> returned; or both returned, \<^verbatim>\<open>improve\<close> raised \<open>e\<close> and
  the buffer holds the lists the two returned. The improved chunks are never in the
  buffer of a call that raised. The buffer has no entry for failed unit indices.
\<close>

theorem buffer_after_agentic_translate:
  assumes "agentic_translate py self source_text clear_buffer ord_t ord_r ord_i
             = (ws, printed, res, self')"
  shows "(case res of
            Inr final \<Rightarrow>
              if clear_buffer then buffer self' = empty_buffer
              else (\<exists>chunks translated reflection improved.
                      text_splitter self source_text = Inr chunks
                    \<and> buffer self' =
                        \<lparr>source_chunks = Some chunks, num_chunks = Some (length chunks),
                         translated_chunks = Some translated, reflection_chunks = Some reflection,
                         improved_chunks = Some improved\<rparr>
                    \<and> snd (translate py
                             (set_buffer self
                                \<lparr>source_chunks = Some chunks, num_chunks = Some (length chunks),
                                 translated_chunks = None, reflection_chunks = None,
                                 improved_chunks = None\<rparr>) ord_t) = Inr translated
                    \<and> snd (reflect py
                             (set_buffer self
                                \<lparr>source_chunks = Some chunks, num_chunks = Some (length chunks),
                                 translated_chunks = Some translated, reflection_chunks = None,
                                 improved_chunks = None\<rparr>) ord_r) = Inr reflection
                    \<and> snd (improve py
                             (set_buffer self
                                \<lparr>source_chunks = Some chunks, num_chunks = Some (length chunks),
                                 translated_chunks = Some translated,
                                 reflection_chunks = Some reflection,
                                 improved_chunks = None\<rparr>) ord_i) = Inr improved
                    \<and> final = concat improved)
          | Inl e \<Rightarrow>
              (text_splitter self source_text = Inl e \<and> buffer self' = empty_buffer)
            \<or> (\<exists>chunks.
                  text_splitter self source_text = Inr chunks
                \<and> snd (translate py
                         (set_buffer self
                            \<lparr>source_chunks = Some chunks, num_chunks = Some (length chunks),
                             translated_chunks = None, reflection_chunks = None,
                             improved_chunks = None\<rparr>) ord_t) = Inl e
                \<and> buffer self' =
                    \<lparr>source_chunks = Some chunks, num_chunks = Some (length chunks),
                     translated_chunks = None, reflection_chunks = None,
                     improved_chunks = None\<rparr>)
            \<or> (\<exists>chunks translated.
                  text_splitter self source_text = Inr chunks
                \<and> snd (translate py
                         (set_buffer self
                            \<lparr>source_chunks = Some chunks, num_chunks = Some (length chunks),
                             translated_chunks = None, reflection_chunks = None,
                             improved_chunks = None\<rparr>) ord_t) = Inr translated
                \<and> snd (reflect py
                         (set_buffer self
                            \<lparr>source_chunks = Some chunks, num_chunks = Some (length chunks),
                             translated_chunks = Some translated, reflection_chunks = None,
                             improved_chunks = None\<rparr>) ord_r) = Inl e
                \<and> buffer self' =
                    \<lparr>source_chunks = Some chunks, num_chunks = Some (length chunks),
                     translated_chunks = Some translated, reflection_chunks = None,
                     improved_chunks = None\<rparr>)
            \<or> (\<exists>chunks translated reflection.
                  text_splitter self source_text = Inr chunks
                \<and> snd (translate py
                         (set_buffer self
                            \<lparr>source_chunks = Some chunks, num_chunks = Some (length chunks),
                             translated_chunks = None, reflection_chunks = None,
                             improved_chunks = None\<rparr>) ord_t) = Inr translated
                \<and> snd (reflect py
                         (set_buffer self
                            \<lparr>source_chunks = Some chunks, num_chunks = Some (length chunks),
                             translated_chunks = Some translated, reflection_chunks = None,
                             improved_chunks = None\<rparr>) ord_r) = Inr reflection
                \<and> snd (improve py
                         (set_buffer self
                            \<lparr>source_chunks = Some chunks, num_chunks = Some (length chunks),
                             translated_chunks = Some translated,
                             reflection_chunks = Some reflection,
                             improved_chunks = None\<rparr>) ord_i) = Inl e
                \<and> buffer self' =
                    \<lparr>source_chunks = Some chunks, num_chunks = Some (length chunks),
                     translated_chunks = Some translated, reflection_chunks = Some reflection,
                     improved_chunks = None\<rparr>))"
proof (cases "text_splitter self source_text")
  case (Inl e)
  with assms show ?thesis
    by (auto simp: agentic_translate_def Let_def empty_buffer_def set_buffer_def buffer_def
        truthy_def)
next
  case chunks: (Inr chunks)
  let ?b1 = "\<lparr>source_chunks = Some chunks, num_chunks = Some (length chunks),
              translated_chunks = None, reflection_chunks = None, improved_chunks = None\<rparr>"
  obtain p1 r1 where t: "translate py (set_buffer self ?b1) ord_t = (p1, r1)"
    by (cases "translate py (set_buffer self ?b1) ord_t")
  show ?thesis
  proof (cases r1)
    case (Inl e)
    with assms chunks t show ?thesis
      by (auto simp: agentic_translate_def Let_def empty_buffer_def set_buffer_def buffer_def
          truthy_def)
  next
    case translated: (Inr translated)
    let ?b2 = "\<lparr>source_chunks = Some chunks, num_chunks = Some (length chunks),
                translated_chunks = Some translated, reflection_chunks = None,
                improved_chunks = None\<rparr>"
    obtain p2 r2 where r: "reflect py (set_buffer self ?b2) ord_r = (p2, r2)"
      by (cases "reflect py (set_buffer self ?b2) ord_r")
    show ?thesis
    proof (cases r2)
      case (Inl e)
      with assms chunks t translated r show ?thesis
        by (auto simp: agentic_translate_def Let_def empty_buffer_def set_buffer_def buffer_def
            truthy_def)
    next
      case reflection: (Inr reflection)
      let ?b3 = "\<lparr>source_chunks = Some chunks, num_chunks = Some (length chunks),
                  translated_chunks = Some translated, reflection_chunks = Some reflection,
                  improved_chunks = None\<rparr>"
      obtain p3 r3 where i: "improve py (set_buffer self ?b3) ord_i = (p3, r3)"
        by (cases "improve py (set_buffer self ?b3) ord_i")
      show ?thesis
      proof (cases r3)
        case (Inl e)
        with assms chunks t translated r reflection i show ?thesis
          by (auto simp: agentic_translate_def Let_def empty_buffer_def set_buffer_def buffer_def
              truthy_def)
      next
        case (Inr improved)
        with assms chunks t translated r reflection i show ?thesis
          by (auto simp: agentic_translate_def Let_def empty_buffer_def set_buffer_def buffer_def
              truthy_def)
      qed
    qed
  qed
qed

text \<open>
  Two runs of the example agent. With \<^verbatim>\<open>clear_buffer=False\<close> the buffer holds the three
  stage outputs afterwards. When the model is down for the translation of the first
  chunk, \<^verbatim>\<open>translate\<close> returns one translation and \<^verbatim>\<open>reflect\<close> raises: the buffer holds the
  source chunks and that one translation.
\<close>

theorem buffer_after_agentic_translate_witness:
  "(\<exists>chunks translated reflection improved.
      text_splitter ex_agent ''Hello, world.'' = Inr chunks
    \<and> buffer (set_buffer ex_agent
                (ex_buffer\<lparr>translated_chunks := Some [''Salut, '', ''monde''],
                            reflection_chunks := Some [''formal'', ''dot''],
                            improved_chunks := Some [''Bonjour, '', ''monde.'']\<rparr>))
        = \<lparr>source_chunks = Some chunks, num_chunks = Some (length chunks),
           translated_chunks = Some translated, reflection_chunks = Some reflection,
           improved_chunks = Some improved\<rparr>
    \<and> ''Bonjour, monde.'' = concat improved)
   \<and> buffer (set_buffer ex_agent_down (ex_buffer\<lparr>translated_chunks := Some [''monde'']\<rparr>))
       = \<lparr>source_chunks = Some [''Hello, '', ''world.''], num_chunks = Some 2,
          translated_chunks = Some [''monde''], reflection_chunks = None,
          improved_chunks = None\<rparr>"
proof -
  have r: "agentic_translate ex_py ex_agent ''Hello, world.'' False [1, 0] [0, 1] [1, 0]
             = ([], [], Inr ''Bonjour, monde.'',
                set_buffer ex_agent
                  (ex_buffer\<lparr>translated_chunks := Some [''Salut, '', ''monde''],
                              reflection_chunks := Some [''formal'', ''dot''],
                              improved_chunks := Some [''Bonjour, '', ''monde.'']\<rparr>))"
    using ex_run[of False] by simp
  have s: "text_splitter ex_agent_down ''Hello, world.'' = Inr [''Hello, '', ''world.'']"
    by (simp add: ex_agent_down_def ex_agent_def)
  from buffer_after_agentic_translate[OF r]
  have a: "\<exists>chunks translated reflection improved.
      text_splitter ex_agent ''Hello, world.'' = Inr chunks
    \<and> buffer (set_buffer ex_agent
                (ex_buffer\<lparr>translated_chunks := Some [''Salut, '', ''monde''],
                            reflection_chunks := Some [''formal'', ''dot''],
                            improved_chunks := Some [''Bonjour, '', ''monde.'']\<rparr>))
        = \<lparr>source_chunks = Some chunks, num_chunks = Some (length chunks),
           translated_chunks = Some translated, reflection_chunks = Some reflection,
           improved_chunks = Some improved\<rparr>
    \<and> ''Bonjour, monde.'' = concat improved"
    by auto
  from buffer_after_agentic_translate[OF ex_run_down[of False]] s
  have b: "buffer (set_buffer ex_agent_down (ex_buffer\<lparr>translated_chunks := Some [''monde'']\<rparr>))
       = \<lparr>source_chunks = Some [''Hello, '', ''world.''], num_chunks = Some 2,
          translated_chunks = Some [''monde''], reflection_chunks = None,
          improved_chunks = None\<rparr>"
    by (simp add: buffer_def truthy_def set_buffer_def ex_buffer_def empty_buffer_def)
  show ?thesis by (rule conjI[OF a b])
qed

text \<open>
  The claim as stated fails on the two runs of the example. A call with the default
  \<^verbatim>\<open>clear_buffer=True\<close> returns the translation and leaves \<^verbatim>\<open>buffer\<close> empty: no stage output
  can be read from it. The call that raises after losing unit 0 in the translation stage
  leaves a buffer with the source chunks, their number and the one translation: index 0
  is recorded nowhere in it.
\<close>

theorem buffer_after_default_run_counterexample:
  "fst (snd (snd (agentic_translate ex_py ex_agent ''Hello, world.'' True [1, 0] [0, 1] [1, 0])))
     = Inr ''Bonjour, monde.''
   \<and> buffer (snd (snd (snd
        (agentic_translate ex_py ex_agent ''Hello, world.'' True [1, 0] [0, 1] [1, 0]))))
     = empty_buffer
   \<and> buffer (snd (snd (snd
        (agentic_translate ex_py ex_agent_down ''Hello, world.'' False [1, 0] [0, 1] [0, 1]))))
     = \<lparr>source_chunks = Some [''Hello, '', ''world.''], num_chunks = Some 2,
        translated_chunks = Some [''monde''], reflection_chunks = None,
        improved_chunks = None\<rparr>"
  using ex_run[of True] ex_run_down[of False]
  by (simp add: buffer_def ex_agent_def set_buffer_def ex_buffer_def)

subsection \<open>The splitters\<close>

text \<open>
  The splitters are functions of the text (and of \<^verbatim>\<open>num_chunks\<close>), so equal inputs give
  equal outputs. \<^verbatim>\<open>NewLineSplitter\<close> and \<^verbatim>\<open>SentenceSplitter\<close> return at least one element
  for every text. \<^verbatim>\<open>UniformTextSplitter\<close> returns at least one element when
  \<open>1 \<le> num_chunks \<le> len(text)\<close>.
\<close>

lemma str_split_not_empty: "str_split sep acc s \<noteq> []"
  by (induction s arbitrary: acc) auto

lemma NewLineSplitter_not_empty: "NewLineSplitter_split_text text \<noteq> []"
  by (simp add: NewLineSplitter_split_text_def str_split_not_empty)

lemma SentenceSplitter_not_empty: "SentenceSplitter_split_text text \<noteq> []"
  by (simp add: SentenceSplitter_split_text_def str_split_not_empty)

lemma UniformTextSplitter_not_empty:
  assumes "0 < n" and "n \<le> int (length s)"
  shows "\<exists>chunks. UniformTextSplitter_split_text n s = Inr chunks \<and> chunks \<noteq> []"
proof -
  let ?len = "int (length s)"
  let ?cs = "?len div n"
  have cs: "0 < ?cs" using assms by (simp add: pos_imp_zdiv_pos_iff)
  have "0 < ?len" using assms by linarith
  then have "?cs \<le> ?len + ?cs - 1" by linarith
  then have "0 < (?len + ?cs - 1) div ?cs" using cs by (simp add: pos_imp_zdiv_pos_iff)
  then show ?thesis
    using assms cs by (simp add: UniformTextSplitter_split_text_def py_range0_def Let_def)
qed

text \<open>
  \<^bold>\<open>Claim C7\<close> fails for \<^verbatim>\<open>UniformTextSplitter\<close> on a text shorter than \<^verbatim>\<open>num_chunks\<close>:
  with three chunks asked of the two-character text \<^verbatim>\<open>ab\<close> the chunk size \<^verbatim>\<open>2 // 3\<close> is
  zero, and \<^verbatim>\<open>range(0, 2, 0)\<close> raises a \<^verbatim>\<open>ValueError\<close>. No list is returned for this
  non-empty text.
\<close>

theorem UniformTextSplitter_short_text_raises:
  "UniformTextSplitter_split_text 3 ''ab'' = Inl (ValueError ''range() arg 3 must not be zero'')"
  by (simp add: UniformTextSplitter_split_text_def py_range0_def)

end
